theory Spec2Isabelle
  imports Complex_Main "HOL-Library.Multiset"
begin

section \<open>JavaScript values and helpers\<close>

text \<open>
  Numbers are modelled by rationals: a literal such as \<open>0.7\<close> denotes its decimal value and
  \<open>>=\<close> is the order of the values. The results of \<open>Math.round\<close> that are not finite are
  kept apart (\<open>0 / 0\<close> is \<open>NaN\<close>, \<open>k / 0\<close> is \<open>Infinity\<close> for positive \<open>k\<close>).
\<close>

datatype js_number = NaN | PosInfinity | Number int

text \<open>A value of type \<open>string | number\<close>; \<open>undefined\<close> is \<open>None\<close> of the option type.\<close>

datatype js_value = Str string | Num int

text \<open>\<open>Math.round\<close> rounds to the nearest integer, a tie towards plus infinity.\<close>

definition Math_round :: "rat \<Rightarrow> int" where
  "Math_round x = \<lfloor>x + 1 / 2\<rfloor>"

text \<open>\<open>Math.round((k / n) * 100)\<close> for array counts \<open>k\<close> and \<open>n\<close>.\<close>

definition round_percent :: "nat \<Rightarrow> nat \<Rightarrow> js_number" where
  "round_percent k n =
     (if n = 0 then (if k = 0 then NaN else PosInfinity)
      else Number (Math_round ((of_nat k / of_nat n) * 100)))"

text \<open>\<open>Array.prototype.slice(start, end)\<close> on integer arguments.\<close>

definition js_slice :: "'a list \<Rightarrow> int \<Rightarrow> int \<Rightarrow> 'a list" where
  "js_slice xs start end =
     (let n = int (length xs);
          k = (if start < 0 then max (n + start) 0 else min start n);
          e = (if end < 0 then max (n + end) 0 else min end n)
      in take (nat (e - k)) (drop (nat k) xs))"

text \<open>\<open>Array.prototype.indexOf\<close>: the first position of the element, or \<open>-1\<close>.\<close>

fun indexOf :: "'a list \<Rightarrow> 'a \<Rightarrow> int" where
  "indexOf [] x = -1"
| "indexOf (y # ys) x = (if y = x then 0 else (let i = indexOf ys x in if i < 0 then -1 else i + 1))"

text \<open>\<open>String.prototype.toUpperCase\<close> on ASCII text (strings are byte lists here).\<close>

definition upper_char :: "char \<Rightarrow> char" where
  "upper_char ch =
     (let n = (of_char ch :: nat) in if 97 \<le> n \<and> n \<le> 122 then char_of (n - 32) else ch)"

definition toUpperCase :: "string \<Rightarrow> string" where
  "toUpperCase s = map upper_char s"

text \<open>The decimal text of a number, as \<open>String(n)\<close> and \<open>n.toString()\<close> give for an integer.\<close>

fun digits :: "nat \<Rightarrow> string" where
  "digits n = (if n < 10 then [char_of (48 + n)] else digits (n div 10) @ [char_of (48 + n mod 10)])"

definition number_toString :: "int \<Rightarrow> string" where
  "number_toString i = (if i < 0 then CHR ''-'' # digits (nat (- i)) else digits (nat i))"

text \<open>\<open>String(v)\<close> for a possibly undefined \<open>string | number\<close>.\<close>

fun String_of :: "js_value option \<Rightarrow> string" where
  "String_of None = ''undefined''"
| "String_of (Some (Str s)) = s"
| "String_of (Some (Num i)) = number_toString i"

text \<open>Truthiness of a string that may be \<open>null\<close> or \<open>undefined\<close>: the empty string is falsy.\<close>

fun truthy :: "string option \<Rightarrow> bool" where
  "truthy None = False"
| "truthy (Some s) = (s \<noteq> [])"

section \<open>The random source and \<open>shuffle\<close>\<close>

text \<open>
  \<open>Math.random()\<close> is an explicit stream: \<open>rnd k\<close> is the result of the \<open>k\<close>-th call and
  a counter is threaded through the code. The contract of \<open>Math.random\<close> is \<open>rng_ok\<close>.
\<close>

type_synonym rng = "nat \<Rightarrow> rat"

definition rng_ok :: "rng \<Rightarrow> bool" where
  "rng_ok rnd = (\<forall>k. 0 \<le> rnd k \<and> rnd k < 1)"

text \<open>\<open>Math.floor(Math.random() * n)\<close> at call number \<open>c\<close>.\<close>

definition floor_random :: "rng \<Rightarrow> nat \<Rightarrow> nat \<Rightarrow> nat" where
  "floor_random rnd c n = nat \<lfloor>rnd c * of_nat n\<rfloor>"

text \<open>
  Arrays live in a store, an array's address being its position in the store.
  \<open>[...array]\<close> allocates a fresh array with the same elements.
\<close>

type_synonym 'a store = "'a list list"

definition spread_copy :: "'a store \<Rightarrow> nat \<Rightarrow> 'a store \<times> nat" where
  "spread_copy h array = (h @ [h ! array], length h)"

text \<open>\<open>[a[i], a[j]] = [a[j], a[i]]\<close> on the array at address \<open>p\<close>.\<close>

definition swap_at :: "'a store \<Rightarrow> nat \<Rightarrow> nat \<Rightarrow> nat \<Rightarrow> 'a store" where
  "swap_at h p i j = h[p := ((h ! p)[i := h ! p ! j])[j := h ! p ! i]]"

text \<open>The loop \<open>for (let i = shuffled.length - 1; i > 0; i--)\<close>, started at \<open>i\<close>.\<close>

fun shuffle_loop :: "rng \<Rightarrow> nat \<Rightarrow> 'a store \<Rightarrow> nat \<Rightarrow> nat \<Rightarrow> 'a store \<times> nat" where
  "shuffle_loop rnd c h p 0 = (h, c)"
| "shuffle_loop rnd c h p (Suc k) =
     shuffle_loop rnd (Suc c) (swap_at h p (Suc k) (floor_random rnd c (Suc k + 1))) p k"

text \<open>\<open>shuffle\<close> returns the new store, the address of the result and the advanced counter.\<close>

definition shuffle :: "rng \<Rightarrow> nat \<Rightarrow> 'a store \<Rightarrow> nat \<Rightarrow> 'a store \<times> nat \<times> nat" where
  "shuffle rnd c h array =
     (let (h1, shuffled) = spread_copy h array;
          (h2, c') = shuffle_loop rnd c h1 shuffled (length (h1 ! shuffled) - 1)
      in (h2, shuffled, c'))"

text \<open>A call of \<open>shuffle\<close> on an array that nothing else refers to.\<close>

definition shuffle_list :: "rng \<Rightarrow> nat \<Rightarrow> 'a list \<Rightarrow> 'a list \<times> nat" where
  "shuffle_list rnd c xs = (case shuffle rnd c [xs] 0 of (h, p, c') \<Rightarrow> (h ! p, c'))"

section \<open>Requests and other effects of the handlers\<close>

text \<open>
  A handler returns the component state it leaves together with the calls it made, in order.
  A request to the backend carries the fields of its JSON body; the user id is the text read
  from local storage (the source hands it to \<open>parseInt\<close>), the landmarks of \<open>/asl/check\<close> are
  left out. Timers are taken as fired: the state a handler returns is the one reached once
  its \<open>setTimeout\<close> callbacks have run.
\<close>

datatype effect =
    AslCheck string
  | SaveScore string string int js_number
  | UpdateProgress string string int
  | OnComplete js_number
  | Navigate string

fun is_UpdateProgress :: "effect \<Rightarrow> bool" where
  "is_UpdateProgress (UpdateProgress u t n) = True"
| "is_UpdateProgress e = False"

text \<open>The client's local storage: keys to strings.\<close>

type_synonym localStorage = "string \<rightharpoonup> string"

section \<open>The camera quiz page\<close>

text \<open>Allowed letters for classification: A, B, C, D, H, L, V, Y, W.\<close>

definition allLetters :: "string list" where
  "allLetters = [''A'', ''B'', ''C'', ''D'', ''H'', ''L'', ''V'', ''Y'', ''W'']"

definition lettersPerLevel :: int where
  "lettersPerLevel = 4"

text \<open>The memoised \<open>questions\<close>: the cumulative slice of \<open>allLetters\<close>, shuffled.\<close>

definition questions_quiz :: "rng \<Rightarrow> nat \<Rightarrow> int \<Rightarrow> string list" where
  "questions_quiz rnd c levelNumber =
     (let quizLetters = js_slice allLetters 0 (levelNumber * lettersPerLevel)
      in fst (shuffle_list rnd c quizLetters))"

record CheckResult =
  success :: bool
  match :: bool
  target :: string
  prediction :: string
  confidence :: rat
  message :: "string option"

text \<open>
  What the request to \<open>/asl/check\<close> comes to: \<open>fetch\<close> or \<open>res.json()\<close> throws, the
  response is not \<open>ok\<close> (its body may carry a message), or it is \<open>ok\<close> with a result.
\<close>

datatype check_fetch = CheckThrew | CheckNotOk "string option" | CheckOk CheckResult

record EvaluationResult =
  letter_r :: string
  correct :: bool

record camera_quiz_state =
  error_q :: string
  checking_q :: bool
  result_q :: "CheckResult option"
  currentQuestionIndex :: nat
  evaluationResults_q :: "EvaluationResult list"
  showResults_q :: bool

text \<open>
  The thresholds of the quiz page (both set to 70%), the tier being the text of the \<open>tier\<close>
  query parameter. \<open>config[tierType] || config.pro\<close> reads a property of an object literal:
  for \<open>pro\<close> and \<open>expert\<close> it is the entry of the literal; for the name of a property that
  every object inherits it is that property, which is truthy and has no
  \<open>confidenceThreshold\<close>, so the threshold is \<open>undefined\<close>; for any other text it is
  \<open>undefined\<close>, and \<open>config.pro\<close> is taken.
\<close>

definition config_quiz :: "string \<rightharpoonup> rat" where
  "config_quiz = [''pro'' \<mapsto> 7 / 10, ''expert'' \<mapsto> 7 / 10]"

definition inherited_properties :: "string list" where
  "inherited_properties =
     [''constructor'', ''hasOwnProperty'', ''isPrototypeOf'', ''propertyIsEnumerable'',
      ''toLocaleString'', ''toString'', ''valueOf'', ''__proto__'',
      ''__defineGetter__'', ''__defineSetter__'', ''__lookupGetter__'', ''__lookupSetter__'']"

text \<open>\<open>currentConfig.confidenceThreshold\<close>, \<open>None\<close> being \<open>undefined\<close>.\<close>

definition currentConfig_quiz :: "string \<Rightarrow> rat option" where
  "currentConfig_quiz tierType =
     (case config_quiz tierType of
        Some t \<Rightarrow> Some t
      | None \<Rightarrow> if tierType \<in> set inherited_properties then None else config_quiz ''pro'')"

text \<open>
  \<open>data.confidence >= currentConfig.confidenceThreshold\<close>: a comparison with \<open>undefined\<close>
  is false.
\<close>

fun meets_threshold :: "rat \<Rightarrow> rat option \<Rightarrow> bool" where
  "meets_threshold c None = False"
| "meets_threshold c (Some t) = (c \<ge> t)"

text \<open>\<open>questions[currentQuestionIndex] || ""\<close>\<close>

definition currentLetter_of :: "string list \<Rightarrow> nat \<Rightarrow> string" where
  "currentLetter_of questions i = (if i < length questions then questions ! i else [])"

text \<open>\<open>!landmarks || landmarks.length < 21\<close>, the cached landmarks given by their number.\<close>

fun no_hand :: "nat option \<Rightarrow> bool" where
  "no_hand None = True"
| "no_hand (Some n) = (n < 21)"

text \<open>The score saved once the last question is answered, and the request that saves it.\<close>

definition final_score :: "EvaluationResult list \<Rightarrow> nat \<Rightarrow> js_number" where
  "final_score updatedResults n = round_percent (length (filter correct updatedResults)) n"

definition save_score_quiz :: "localStorage \<Rightarrow> string \<Rightarrow> int \<Rightarrow> js_number \<Rightarrow> effect list" where
  "save_score_quiz ls tierType levelNumber score =
     (case ls ''user_id'' of
        None \<Rightarrow> []
      | Some userId \<Rightarrow> if userId = [] then [] else [SaveScore userId tierType levelNumber score])"

definition handleCheck_quiz ::
  "string \<Rightarrow> int \<Rightarrow> string list \<Rightarrow> localStorage \<Rightarrow> nat option \<Rightarrow> check_fetch
     \<Rightarrow> camera_quiz_state \<Rightarrow> camera_quiz_state \<times> effect list" where
  "handleCheck_quiz tierType levelNumber questions ls landmarks fetched s =
     (let currentLetter = currentLetter_of questions (currentQuestionIndex s);
          s0 = s\<lparr>error_q := [], result_q := None\<rparr>
      in if no_hand landmarks
         then (s0\<lparr>error_q := ''No hand detected yet. Try showing your hand to the camera.''\<rparr>, [])
         else (case fetched of
             CheckThrew \<Rightarrow>
               (s0\<lparr>error_q := ''Unable to reach the backend server. Is Flask running?'',
                    checking_q := False\<rparr>, [AslCheck currentLetter])
           | CheckNotOk msg \<Rightarrow>
               (s0\<lparr>error_q := (if truthy msg then the msg else ''Backend returned an error.''),
                    checking_q := False\<rparr>, [AslCheck currentLetter])
           | CheckOk data \<Rightarrow>
               (let s1 = s0\<lparr>result_q := Some data, checking_q := False\<rparr>
                in if match data \<and> meets_threshold (confidence data) (currentConfig_quiz tierType)
                   then (let newResult = \<lparr>letter_r = currentLetter, correct = True\<rparr>;
                             updatedResults = evaluationResults_q s @ [newResult];
                             s2 = s1\<lparr>evaluationResults_q := updatedResults\<rparr>
                         in if int (currentQuestionIndex s) < int (length questions) - 1
                            then (s2\<lparr>currentQuestionIndex := currentQuestionIndex s + 1,
                                      result_q := None, error_q := []\<rparr>,
                                  [AslCheck currentLetter])
                            else (s2\<lparr>showResults_q := True\<rparr>,
                                  AslCheck currentLetter
                                  # save_score_quiz ls tierType levelNumber
                                      (final_score updatedResults (length questions))))
                   else (s1, [AslCheck currentLetter]))))"

definition handleSkip_quiz ::
  "string \<Rightarrow> int \<Rightarrow> string list \<Rightarrow> localStorage \<Rightarrow> camera_quiz_state
     \<Rightarrow> camera_quiz_state \<times> effect list" where
  "handleSkip_quiz tierType levelNumber questions ls s =
     (let currentLetter = currentLetter_of questions (currentQuestionIndex s);
          newResult = \<lparr>letter_r = currentLetter, correct = False\<rparr>;
          updatedResults = evaluationResults_q s @ [newResult];
          s1 = s\<lparr>evaluationResults_q := updatedResults\<rparr>
      in if int (currentQuestionIndex s) < int (length questions) - 1
         then (s1\<lparr>currentQuestionIndex := currentQuestionIndex s + 1,
                   result_q := None, error_q := []\<rparr>, [])
         else (s1\<lparr>showResults_q := True\<rparr>,
               save_score_quiz ls tierType levelNumber
                 (final_score updatedResults (length questions))))"

section \<open>The camera evaluation component\<close>

text \<open>Its \<open>TierType\<close> is \<open>"expert" | "pro"\<close>.\<close>

datatype EvalTier = tier_expert | tier_pro

record camera_eval_state =
  error_e :: string
  checking_e :: bool
  result_e :: "CheckResult option"
  currentLetterIndex :: nat
  evaluationResults_e :: "EvaluationResult list"

text \<open>Pro vs Expert configuration: 70% confidence required, 85% for expert (stricter).\<close>

fun config_eval :: "EvalTier \<Rightarrow> rat" where
  "config_eval tier_pro = 7 / 10"
| "config_eval tier_expert = 85 / 100"

fun tierRoutes_eval :: "EvalTier \<Rightarrow> string" where
  "tierRoutes_eval tier_expert = ''/expert-levels''"
| "tierRoutes_eval tier_pro = ''/pro-levels''"

definition handleCheck_eval ::
  "EvalTier \<Rightarrow> string list \<Rightarrow> nat option \<Rightarrow> check_fetch
     \<Rightarrow> camera_eval_state \<Rightarrow> camera_eval_state \<times> effect list" where
  "handleCheck_eval tierType expectedLetters landmarks fetched s =
     (let currentLetter = currentLetter_of expectedLetters (currentLetterIndex s);
          s0 = s\<lparr>error_e := [], result_e := None\<rparr>
      in if no_hand landmarks
         then (s0\<lparr>error_e := ''No hand detected yet. Try showing your hand to the camera.''\<rparr>, [])
         else (case fetched of
             CheckThrew \<Rightarrow>
               (s0\<lparr>error_e := ''Unable to reach the backend server. Is Flask running?'',
                    checking_e := False\<rparr>, [AslCheck currentLetter])
           | CheckNotOk msg \<Rightarrow>
               (s0\<lparr>error_e := (if truthy msg then the msg else ''Backend returned an error.''),
                    checking_e := False\<rparr>, [AslCheck currentLetter])
           | CheckOk data \<Rightarrow>
               (let s1 = s0\<lparr>result_e := Some data, checking_e := False\<rparr>
                in if match data \<and> confidence data \<ge> config_eval tierType
                   then (let newResult = \<lparr>letter_r = currentLetter, correct = True\<rparr>;
                             s2 = s1\<lparr>evaluationResults_e := evaluationResults_e s @ [newResult]\<rparr>
                         in if int (currentLetterIndex s) < int (length expectedLetters) - 1
                            then (s2\<lparr>currentLetterIndex := currentLetterIndex s + 1,
                                      result_e := None, error_e := []\<rparr>,
                                  [AslCheck currentLetter])
                            else (s2,
                                  [AslCheck currentLetter,
                                   OnComplete (final_score (evaluationResults_e s @ [newResult])
                                                 (length expectedLetters)),
                                   Navigate (tierRoutes_eval tierType)]))
                   else (s1, [AslCheck currentLetter]))))"

section \<open>The lesson and quiz page: level content\<close>

datatype QuestionType = matching | typing | true_false | word_spelling

record pair =
  letter_p :: string
  sign :: string

record Question =
  id_q :: nat
  type_q :: QuestionType
  question :: string
  correctAnswer :: js_value
  pairs :: "pair list option"
  imageSrc :: "string option"
  fallbackEmoji :: "string option"
  word :: "string option"

datatype TierType = beginner | intermediate | expert | pro

datatype image_type = image | emoji_type

record image_data =
  type_i :: image_type
  src :: string

text \<open>
  Helper to get image path or fallback to emoji: all letters A-W have images available.
  The list of the source is written in rows of four.
\<close>

definition imageLetters :: "string list" where
  "imageLetters =
     [''A'', ''B'', ''C'', ''D''] @ [''E'', ''F'', ''G'', ''H''] @ [''I'', ''J'', ''K'', ''L'']
     @ [''M'', ''N'', ''O'', ''P''] @ [''Q'', ''R'', ''S'', ''T''] @ [''U'', ''V'', ''W'']"

definition getImageSrc :: "string \<Rightarrow> string \<Rightarrow> image_data" where
  "getImageSrc l fallback =
     (if l \<in> set imageLetters then \<lparr>type_i = image, src = ''/'' @ l @ ''.png''\<rparr>
      else \<lparr>type_i = emoji_type, src = fallback\<rparr>)"

text \<open>
  All letters with their emojis, A through W. An emoji is written by its code point, since
  only its identity matters.
\<close>

record letter_data =
  letter :: string
  instruction :: string
  emoji :: string

definition allLettersData :: "letter_data list" where
  "allLettersData =
     [\<lparr>letter = ''A'', instruction = ''Make a fist with your thumb on the side'', emoji = ''U+270A''\<rparr>,
      \<lparr>letter = ''B'', instruction = ''Hold your hand flat with fingers together, thumb across palm'', emoji = ''U+1F590''\<rparr>,
      \<lparr>letter = ''C'', instruction = ''Curve your hand to form a C shape'', emoji = ''U+1F90C''\<rparr>,
      \<lparr>letter = ''D'', instruction = ''Point your index finger up, other fingers touch thumb'', emoji = ''U+261D''\<rparr>,
      \<lparr>letter = ''E'', instruction = ''Curl all fingers down toward palm, thumb across them'', emoji = ''U+270A''\<rparr>,
      \<lparr>letter = ''F'', instruction = ''Touch thumb and index finger, other fingers up'', emoji = ''U+1F44C''\<rparr>,
      \<lparr>letter = ''G'', instruction = ''Point index and middle fingers up'', emoji = ''U+270C''\<rparr>,
      \<lparr>letter = ''H'', instruction = ''Index and middle finger together pointing up'', emoji = ''U+270C''\<rparr>,
      \<lparr>letter = ''I'', instruction = ''Pinky finger up'', emoji = ''U+1F918''\<rparr>,
      \<lparr>letter = ''J'', instruction = ''Pinky draws J in air'', emoji = ''U+270D''\<rparr>,
      \<lparr>letter = ''K'', instruction = ''Index and middle finger up like V'', emoji = ''U+270C''\<rparr>,
      \<lparr>letter = ''L'', instruction = ''Index finger and thumb form L'', emoji = ''U+1F44C''\<rparr>,
      \<lparr>letter = ''M'', instruction = ''Three fingers down, thumb tucked'', emoji = ''U+270A''\<rparr>,
      \<lparr>letter = ''N'', instruction = ''Two fingers down, thumb tucked'', emoji = ''U+270A''\<rparr>,
      \<lparr>letter = ''O'', instruction = ''Form a circle with thumb and index finger'', emoji = ''U+1F44C''\<rparr>,
      \<lparr>letter = ''P'', instruction = ''Index finger points down, thumb touches middle finger'', emoji = ''U+1F44C''\<rparr>,
      \<lparr>letter = ''Q'', instruction = ''Make a circle with thumb and index, point down'', emoji = ''U+1F44C''\<rparr>,
      \<lparr>letter = ''R'', instruction = ''Index and middle finger cross'', emoji = ''U+270C''\<rparr>,
      \<lparr>letter = ''S'', instruction = ''Fist with thumb over fingers'', emoji = ''U+270A''\<rparr>,
      \<lparr>letter = ''T'', instruction = ''Fist with thumb between index and middle'', emoji = ''U+270A''\<rparr>,
      \<lparr>letter = ''U'', instruction = ''Index and middle finger together up'', emoji = ''U+270C''\<rparr>,
      \<lparr>letter = ''V'', instruction = ''Index and middle finger spread apart up'', emoji = ''U+270C''\<rparr>,
      \<lparr>letter = ''W'', instruction = ''Index, middle, and ring finger up, spread apart'', emoji = ''U+270C''\<rparr>]"

record lesson_letter =
  letter_l :: string
  instruction_l :: string
  imageData :: image_data

text \<open>For quizzes: all letters learned so far (cumulative).\<close>

definition quizLetters_of :: "int \<Rightarrow> letter_data list" where
  "quizLetters_of level = js_slice allLettersData 0 (level * lettersPerLevel)"

definition typing_question :: "nat \<Rightarrow> letter_data \<Rightarrow> Question" where
  "typing_question n ld =
     \<lparr>id_q = n, type_q = typing, question = ''What letter is this sign?'',
      correctAnswer = Str (letter ld), pairs = None,
      imageSrc = (if type_i (getImageSrc (letter ld) (emoji ld)) = image
                  then Some (''/'' @ letter ld @ ''.png'') else None),
      fallbackEmoji = Some (emoji ld), word = None\<rparr>"

text \<open>\<open>shuffledQuizLetters.forEach\<close>: one typing question is pushed for each letter.\<close>

fun push_typing :: "letter_data list \<Rightarrow> Question list \<Rightarrow> Question list" where
  "push_typing [] questions = questions"
| "push_typing (ld # rest) questions =
     push_typing rest (questions @ [typing_question (length questions) ld])"

text \<open>Matching question with shuffled letters.\<close>

definition push_matching ::
  "rng \<Rightarrow> nat \<Rightarrow> letter_data list \<Rightarrow> Question list \<Rightarrow> Question list \<times> nat" where
  "push_matching rnd c quizLetters questions =
     (if length quizLetters \<ge> 3
      then (case shuffle_list rnd c quizLetters of (sh, c') \<Rightarrow>
              (questions @
                 [\<lparr>id_q = length questions, type_q = matching,
                   question = ''Match each letter to its sign'',
                   correctAnswer = Str ''matched'',
                   pairs = Some (map (\<lambda>ld. \<lparr>letter_p = letter ld,
                                              sign = src (getImageSrc (letter ld) (emoji ld))\<rparr>)
                                   (js_slice sh 0 (min 4 (int (length quizLetters))))),
                   imageSrc = None, fallbackEmoji = None, word = None\<rparr>], c'))
      else (questions, c))"

record word_option =
  word_w :: string
  letters :: "string list"

definition allWordOptions :: "word_option list" where
  "allWordOptions =
     [\<lparr>word_w = ''BAD'', letters = [''B'', ''A'', ''D'']\<rparr>,
      \<lparr>word_w = ''CAB'', letters = [''C'', ''A'', ''B'']\<rparr>,
      \<lparr>word_w = ''FED'', letters = [''F'', ''E'', ''D'']\<rparr>,
      \<lparr>word_w = ''ACE'', letters = [''A'', ''C'', ''E'']\<rparr>,
      \<lparr>word_w = ''BED'', letters = [''B'', ''E'', ''D'']\<rparr>,
      \<lparr>word_w = ''CAD'', letters = [''C'', ''A'', ''D'']\<rparr>,
      \<lparr>word_w = ''DAB'', letters = [''D'', ''A'', ''B'']\<rparr>,
      \<lparr>word_w = ''BEAD'', letters = [''B'', ''E'', ''A'', ''D'']\<rparr>,
      \<lparr>word_w = ''FACE'', letters = [''F'', ''A'', ''C'', ''E'']\<rparr>,
      \<lparr>word_w = ''FADE'', letters = [''F'', ''A'', ''D'', ''E'']\<rparr>,
      \<lparr>word_w = ''FEED'', letters = [''F'', ''E'', ''E'', ''D'']\<rparr>,
      \<lparr>word_w = ''CABE'', letters = [''C'', ''A'', ''B'', ''E'']\<rparr>,
      \<lparr>word_w = ''HELLO'', letters = [''H'', ''E'', ''L'', ''L'', ''O'']\<rparr>,
      \<lparr>word_w = ''BELLE'', letters = [''B'', ''E'', ''L'', ''L'', ''E'']\<rparr>,
      \<lparr>word_w = ''FACED'', letters = [''F'', ''A'', ''C'', ''E'', ''D'']\<rparr>,
      \<lparr>word_w = ''CAFED'', letters = [''C'', ''A'', ''F'', ''E'', ''D'']\<rparr>,
      \<lparr>word_w = ''BACHELOR'', letters = [''B'', ''A'', ''C'', ''H'', ''E'', ''L'', ''O'', ''R'']\<rparr>,
      \<lparr>word_w = ''CABLED'', letters = [''C'', ''A'', ''B'', ''L'', ''E'', ''D'']\<rparr>,
      \<lparr>word_w = ''FABLED'', letters = [''F'', ''A'', ''B'', ''L'', ''E'', ''D'']\<rparr>]"

text \<open>Filter words to only include those using available letters.\<close>

definition wordOptions_of :: "letter_data list \<Rightarrow> word_option list" where
  "wordOptions_of quizLetters =
     filter (\<lambda>w. list_all (\<lambda>l. l \<in> set (map letter quizLetters)) (letters w)) allWordOptions"

definition spelling_question :: "nat \<Rightarrow> word_option \<Rightarrow> Question" where
  "spelling_question n selectedWord =
     \<lparr>id_q = n, type_q = word_spelling,
      question = ''Spell the word '' @ [CHR 0x22] @ toUpperCase (word_w selectedWord)
                 @ [CHR 0x22] @ '' using hand signs'',
      correctAnswer = Str (toUpperCase (word_w selectedWord)), pairs = None,
      imageSrc = None, fallbackEmoji = None,
      word = Some (toUpperCase (word_w selectedWord))\<rparr>"

text \<open>\<open>wordOptions.splice(index, 1)\<close> when \<open>index > -1\<close>.\<close>

definition splice_one :: "'a list \<Rightarrow> int \<Rightarrow> 'a list" where
  "splice_one xs index =
     (if index > -1 then take (nat index) xs @ drop (Suc (nat index)) xs else xs)"

text \<open>
  The loop \<open>for (let i = 0; i < numWordQuestions && wordOptions.length > 0; i++)\<close>, with
  the number of rounds still allowed. The options are pairwise different, so \<open>indexOf\<close>
  finds the selected object.
\<close>

fun word_loop ::
  "rng \<Rightarrow> nat \<Rightarrow> nat \<Rightarrow> word_option list \<Rightarrow> Question list \<Rightarrow> Question list \<times> nat" where
  "word_loop rnd c 0 wordOptions questions = (questions, c)"
| "word_loop rnd c (Suc n) wordOptions questions =
     (if length wordOptions > 0
      then (let selectedWord = wordOptions ! floor_random rnd c (length wordOptions);
                questions' = questions @ [spelling_question (length questions) selectedWord];
                index = indexOf wordOptions selectedWord
            in word_loop rnd (Suc c) n (splice_one wordOptions index) questions')
      else (questions, c))"

text \<open>Word spelling questions (for level 2+), 1-2 of them based on level.\<close>

definition push_words ::
  "rng \<Rightarrow> nat \<Rightarrow> int \<Rightarrow> letter_data list \<Rightarrow> Question list \<Rightarrow> Question list \<times> nat" where
  "push_words rnd c level quizLetters questions =
     (if level \<ge> 2 \<and> length quizLetters \<ge> 3
      then (let wordOptions = wordOptions_of quizLetters;
                numWordQuestions = (if level \<ge> 3 then 2 else 1)
            in word_loop rnd c numWordQuestions wordOptions questions)
      else (questions, c))"

text \<open>The question list as it stands after the typing questions have been pushed.\<close>

definition typing_stage :: "rng \<Rightarrow> nat \<Rightarrow> int \<Rightarrow> Question list \<times> nat" where
  "typing_stage rnd c level =
     (case shuffle_list rnd c (quizLetters_of level) of (shuffledQuizLetters, c') \<Rightarrow>
        (push_typing shuffledQuizLetters [], c'))"

text \<open>
  \<open>getLevelData\<close>: the letters of the lesson (not cumulative) and the questions of the quiz
  (cumulative), all questions shuffled at the end.
\<close>

definition getLevelData :: "rng \<Rightarrow> nat \<Rightarrow> int \<Rightarrow> lesson_letter list \<times> Question list" where
  "getLevelData rnd c level =
     (let startIdx = (level - 1) * lettersPerLevel;
          levelLetters = js_slice allLettersData startIdx (startIdx + lettersPerLevel);
          lesson = map (\<lambda>ld. \<lparr>letter_l = letter ld, instruction_l = instruction ld,
                                imageData = getImageSrc (letter ld) (emoji ld)\<rparr>) levelLetters;
          quizLetters = quizLetters_of level
      in case typing_stage rnd c level of (questions1, c1) \<Rightarrow>
         case push_matching rnd c1 quizLetters questions1 of (questions2, c2) \<Rightarrow>
         case push_words rnd c2 level quizLetters questions2 of (questions3, c3) \<Rightarrow>
           (lesson, fst (shuffle_list rnd c3 questions3)))"

section \<open>The lesson and quiz page: session state, drops, scoring and submission\<close>

text \<open>
  The keys of \<open>droppedIcons\<close> are the texts \<open>`${questionId}-${letter}`\<close> for a pair of a
  matching question and \<open>`word-${currentIndex}-${idx}`\<close> for a slot of a word; the two forms
  never coincide, and each is determined by its parts.
\<close>

datatype drop_key = PairSlot nat string | WordSlot nat nat

datatype Mode = learning | quiz

record quiz_state =
  currentIndex :: nat
  mode :: Mode
  quizAnswers :: "nat \<rightharpoonup> js_value"
  showResults :: bool
  levelComplete :: bool
  draggedIcon :: "string option"
  droppedIcons :: "drop_key \<rightharpoonup> string"
  highestScore :: js_number
  wordSpellingAnswers :: "nat \<rightharpoonup> string"

definition handleQuizAnswer :: "nat \<Rightarrow> js_value \<Rightarrow> quiz_state \<Rightarrow> quiz_state" where
  "handleQuizAnswer index answer s = s\<lparr>quizAnswers := (quizAnswers s)(index \<mapsto> answer)\<rparr>"

definition handleDragStart :: "string \<Rightarrow> quiz_state \<Rightarrow> quiz_state" where
  "handleDragStart iconSrc s = s\<lparr>draggedIcon := Some iconSrc\<rparr>"

text \<open>
  The body of \<open>currentQuestion.pairs.forEach\<close> in \<open>handleDrop\<close>: the flag is cleared when
  \<open>!dropped || dropped !== pair.sign\<close>.
\<close>

definition drop_step :: "(drop_key \<rightharpoonup> string) \<Rightarrow> nat \<Rightarrow> pair \<Rightarrow> bool \<Rightarrow> bool" where
  "drop_step newDropped questionId p allMatched =
     (let dropped = newDropped (PairSlot questionId (letter_p p))
      in if \<not> truthy dropped \<or> dropped \<noteq> Some (sign p) then False else allMatched)"

text \<open>
  \<open>handleDrop\<close>. Reading \<open>type\<close> of a missing \<open>questions[currentIndex]\<close> throws, after the
  new \<open>droppedIcons\<close> has been set.
\<close>

definition handleDrop :: "Question list \<Rightarrow> nat \<Rightarrow> string \<Rightarrow> quiz_state \<Rightarrow> quiz_state" where
  "handleDrop questions questionId l s =
     (if truthy (draggedIcon s)
      then (let newDropped = (droppedIcons s)(PairSlot questionId l \<mapsto> the (draggedIcon s));
                s1 = s\<lparr>droppedIcons := newDropped\<rparr>
            in if currentIndex s < length questions
               then (let currentQuestion = questions ! currentIndex s;
                         s2 = (if type_q currentQuestion = matching \<and> pairs currentQuestion \<noteq> None
                               then (let allMatched =
                                           fold (drop_step newDropped questionId)
                                             (the (pairs currentQuestion)) True
                                     in if allMatched
                                        then s1\<lparr>quizAnswers :=
                                                  (quizAnswers s)(questionId \<mapsto> Str ''matched'')\<rparr>
                                        else s1)
                               else s1)
                     in s2\<lparr>draggedIcon := None\<rparr>)
               else s1)
      else s)"

text \<open>The body of \<open>q.pairs?.forEach\<close> in \<open>calculateScore\<close>.\<close>

definition score_step :: "(drop_key \<rightharpoonup> string) \<Rightarrow> nat \<Rightarrow> pair \<Rightarrow> bool \<Rightarrow> bool" where
  "score_step dropped_icons idx p allCorrect =
     (if dropped_icons (PairSlot idx (letter_p p)) \<noteq> Some (sign p) then False else allCorrect)"

text \<open>Whether \<open>correct++\<close> runs for question \<open>q\<close> at position \<open>idx\<close>.\<close>

definition counts_correct :: "quiz_state \<Rightarrow> nat \<Rightarrow> Question \<Rightarrow> bool" where
  "counts_correct s idx q =
     (let answer = quizAnswers s idx
      in if type_q q = matching
         then (if answer = Some (Str ''matched'')
               then fold (score_step (droppedIcons s) idx)
                      (case pairs q of None \<Rightarrow> [] | Some ps \<Rightarrow> ps) True
               else False)
         else if type_q q = true_false
         then answer = Some (correctAnswer q)
         else if type_q q = word_spelling
         then (let userAnswer = (if truthy (wordSpellingAnswers s idx)
                                 then the (wordSpellingAnswers s idx) else [])
               in toUpperCase userAnswer = toUpperCase (String_of (Some (correctAnswer q))))
         else toUpperCase (String_of answer) = toUpperCase (String_of (Some (correctAnswer q))))"

text \<open>\<open>questions.forEach((q, idx) => ...)\<close> with the counter \<open>correct\<close> of the source.\<close>

fun score_loop :: "quiz_state \<Rightarrow> nat \<Rightarrow> Question list \<Rightarrow> nat \<Rightarrow> nat" where
  "score_loop s idx [] n_correct = n_correct"
| "score_loop s idx (q # qs) n_correct =
     score_loop s (Suc idx) qs (if counts_correct s idx q then Suc n_correct else n_correct)"

definition calculateScore :: "Question list \<Rightarrow> quiz_state \<Rightarrow> nat" where
  "calculateScore questions s = score_loop s 0 questions 0"

text \<open>What the requests of \<open>handleSubmitQuiz\<close> come to.\<close>

datatype save_fetch = SaveThrew | SaveNotOk | SaveOk "int option"

datatype progress_fetch = ProgressThrew | ProgressData bool

fun tier_name :: "TierType \<Rightarrow> string" where
  "tier_name beginner = ''beginner''"
| "tier_name intermediate = ''intermediate''"
| "tier_name expert = ''expert''"
| "tier_name pro = ''pro''"

definition tierOrder :: "string list" where
  "tierOrder = [''beginner'', ''intermediate'', ''expert'', ''pro'']"

text \<open>\<open>setHighestScore(data.highest_score || percentage)\<close> when the score was saved.\<close>

fun after_save :: "save_fetch \<Rightarrow> js_number \<Rightarrow> quiz_state \<Rightarrow> quiz_state" where
  "after_save (SaveOk (Some h)) percentage s =
     s\<lparr>highestScore := (if h \<noteq> 0 then Number h else percentage)\<rparr>"
| "after_save (SaveOk None) percentage s = s\<lparr>highestScore := percentage\<rparr>"
| "after_save SaveThrew percentage s = s"
| "after_save SaveNotOk percentage s = s"

text \<open>The two \<open>localStorage.setItem\<close> calls, made when \<open>data.success\<close> holds.\<close>

fun after_progress :: "progress_fetch \<Rightarrow> string \<Rightarrow> int \<Rightarrow> localStorage \<Rightarrow> localStorage" where
  "after_progress (ProgressData True) t n ls =
     ls(''level_type'' \<mapsto> t, ''level_number'' \<mapsto> number_toString n)"
| "after_progress (ProgressData False) t n ls = ls"
| "after_progress ProgressThrew t n ls = ls"

definition handleSubmitQuiz ::
  "TierType \<Rightarrow> int \<Rightarrow> Question list \<Rightarrow> save_fetch \<Rightarrow> progress_fetch
     \<Rightarrow> quiz_state \<Rightarrow> localStorage \<Rightarrow> quiz_state \<times> localStorage \<times> effect list" where
  "handleSubmitQuiz tierType levelNumber questions saved progressed s ls =
     (let s1 = s\<lparr>showResults := True\<rparr>;
          score = calculateScore questions s;
          percentage = round_percent score (length questions);
          userId = ls ''user_id'';
          s2 = (if truthy userId then after_save saved percentage s1 else s1);
          sent = (if truthy userId
                  then [SaveScore (the userId) (tier_name tierType) levelNumber percentage]
                  else [])
      in if percentage = Number 100 \<and> truthy userId
         then (let s3 = s2\<lparr>levelComplete := True\<rparr>
               in if levelNumber = 5
                  then (let currentTierIndex = indexOf tierOrder (tier_name tierType);
                            nextTier = (if currentTierIndex < int (length tierOrder) - 1
                                        then tierOrder ! nat (currentTierIndex + 1)
                                        else tier_name tierType)
                        in (s3, after_progress progressed nextTier 1 ls,
                            sent @ [UpdateProgress (the userId) nextTier 1]))
                  else (let nextLevel = levelNumber + 1
                        in (s3, after_progress progressed (tier_name tierType) nextLevel ls,
                            sent @ [UpdateProgress (the userId) (tier_name tierType) nextLevel])))
         else (s2, ls, sent))"

section \<open>The statements the code is compared with\<close>

text \<open>The next tier in the fixed order beginner, intermediate, expert, pro; pro stays at pro.\<close>

fun next_tier :: "TierType \<Rightarrow> TierType" where
  "next_tier beginner = intermediate"
| "next_tier intermediate = expert"
| "next_tier expert = pro"
| "next_tier pro = pro"

text \<open>
  Every pair of a matching question has, in its drop zone, the sign expected for it.
\<close>

definition all_pairs_correct :: "(drop_key \<rightharpoonup> string) \<Rightarrow> nat \<Rightarrow> pair list \<Rightarrow> bool" where
  "all_pairs_correct dropped idx ps =
     list_all (\<lambda>p. dropped (PairSlot idx (letter_p p)) = Some (sign p)) ps"

text \<open>The answer recorded for a word-spelling question: the word built from the drops.\<close>

definition spelled_answer :: "quiz_state \<Rightarrow> nat \<Rightarrow> string" where
  "spelled_answer s idx = (case wordSpellingAnswers s idx of None \<Rightarrow> [] | Some u \<Rightarrow> u)"

text \<open>
  The comparison as the specification words it: the answer is the sentinel \<open>matched\<close> for a
  matching question, equals the correct answer for a true-false question, and equals it up
  to case for a typing or word-spelling question.
\<close>

fun claimed_match :: "quiz_state \<Rightarrow> nat \<Rightarrow> Question \<Rightarrow> bool" where
  "claimed_match s idx q =
     (case type_q q of
        matching \<Rightarrow> quizAnswers s idx = Some (Str ''matched'')
      | true_false \<Rightarrow> quizAnswers s idx = Some (correctAnswer q)
      | typing \<Rightarrow> toUpperCase (String_of (quizAnswers s idx))
                  = toUpperCase (String_of (Some (correctAnswer q)))
      | word_spelling \<Rightarrow> toUpperCase (spelled_answer s idx)
                  = toUpperCase (String_of (Some (correctAnswer q))))"

definition claimed_score :: "Question list \<Rightarrow> quiz_state \<Rightarrow> nat" where
  "claimed_score questions s =
     length (filter (\<lambda>(idx, q). claimed_match s idx q) (enumerate 0 questions))"

text \<open>
  The comparison that differs from it for a matching question only: the answer is the
  sentinel and every pair currently has its sign.
\<close>

fun scored_match :: "quiz_state \<Rightarrow> nat \<Rightarrow> Question \<Rightarrow> bool" where
  "scored_match s idx q =
     (case type_q q of
        matching \<Rightarrow> quizAnswers s idx = Some (Str ''matched'')
                    \<and> all_pairs_correct (droppedIcons s) idx
                          (case pairs q of None \<Rightarrow> [] | Some ps \<Rightarrow> ps)
      | true_false \<Rightarrow> quizAnswers s idx = Some (correctAnswer q)
      | typing \<Rightarrow> toUpperCase (String_of (quizAnswers s idx))
                  = toUpperCase (String_of (Some (correctAnswer q)))
      | word_spelling \<Rightarrow> toUpperCase (spelled_answer s idx)
                  = toUpperCase (String_of (Some (correctAnswer q))))"

section \<open>Sample sessions\<close>

text \<open>The session state when a quiz is entered.\<close>

definition initial_state :: quiz_state where
  "initial_state =
     \<lparr>currentIndex = 0, mode = quiz, quizAnswers = Map.empty, showResults = False,
      levelComplete = False, draggedIcon = None, droppedIcons = Map.empty,
      highestScore = Number 0, wordSpellingAnswers = Map.empty\<rparr>"

text \<open>
  The state at the last question once every question of a quiz has been answered
  correctly: the letters typed, every pair of a matching question dropped on its sign, every
  word spelled with the icons of its letters.
\<close>

definition perfect_state :: "Question list \<Rightarrow> quiz_state" where
  "perfect_state qs =
     \<lparr>currentIndex = length qs - 1, mode = quiz,
      quizAnswers = (\<lambda>idx. if idx < length qs \<and> type_q (qs ! idx) \<noteq> word_spelling
                            then Some (correctAnswer (qs ! idx)) else None),
      showResults = False, levelComplete = False, draggedIcon = None,
      droppedIcons =
        (\<lambda>k. case k of
                PairSlot i l \<Rightarrow>
                  (if i < length qs
                   then (case pairs (qs ! i) of
                           None \<Rightarrow> None
                         | Some ps \<Rightarrow> map_of (map (\<lambda>p. (letter_p p, sign p)) ps) l)
                   else None)
              | WordSlot i j \<Rightarrow>
                  (if i < length qs
                   then (case word (qs ! i) of
                           None \<Rightarrow> None
                         | Some w \<Rightarrow> if j < length w then Some (''/'' @ [w ! j] @ ''.png'') else None)
                   else None)),
      highestScore = Number 0,
      wordSpellingAnswers = (\<lambda>idx. if idx < length qs then word (qs ! idx) else None)\<rparr>"

text \<open>The camera quiz when it is entered.\<close>

definition initial_camera_state :: camera_quiz_state where
  "initial_camera_state =
     \<lparr>error_q = [], checking_q = False, result_q = None, currentQuestionIndex = 0,
      evaluationResults_q = [], showResults_q = False\<rparr>"

text \<open>A response of the classifier that matches the target with confidence 0.9.\<close>

definition good_response :: "string \<Rightarrow> check_fetch" where
  "good_response l =
     CheckOk \<lparr>success = True, match = True, target = l, prediction = l,
              confidence = 9 / 10, message = None\<rparr>"

text \<open>The quiz of level 1 for a random source that always returns one third.\<close>

definition sample_quiz :: "Question list" where
  "sample_quiz = snd (getLevelData (\<lambda>k. 1 / 3) 0 1)"

text \<open>An icon of the bank is dragged onto the drop zone of a letter of the current question.\<close>

definition drag_and_drop :: "Question list \<Rightarrow> string \<Rightarrow> string \<Rightarrow> quiz_state \<Rightarrow> quiz_state" where
  "drag_and_drop qs icon l s = handleDrop qs (currentIndex s) l (handleDragStart icon s)"

text \<open>
  The matching question of \<open>sample_quiz\<close> is at position 3, its letters being C, A, D, B.
  Three icons are dropped correctly, then the fourth, then a wrong icon on the zone of A.
\<close>

definition three_dropped_state :: quiz_state where
  "three_dropped_state =
     drag_and_drop sample_quiz ''/B.png'' ''B''
       (drag_and_drop sample_quiz ''/C.png'' ''C''
         (drag_and_drop sample_quiz ''/D.png'' ''D'' (initial_state\<lparr>currentIndex := 3\<rparr>)))"

definition all_matched_state :: quiz_state where
  "all_matched_state = drag_and_drop sample_quiz ''/A.png'' ''A'' three_dropped_state"

definition wrong_drop_state :: quiz_state where
  "wrong_drop_state = drag_and_drop sample_quiz ''/B.png'' ''A'' all_matched_state"

text \<open>After that the four typing questions are answered correctly.\<close>

definition typed_state :: quiz_state where
  "typed_state =
     handleQuizAnswer 4 (Str ''A'')
       (handleQuizAnswer 2 (Str ''B'')
         (handleQuizAnswer 1 (Str ''C'')
           (handleQuizAnswer 0 (Str ''D'') wrong_drop_state)))"

text \<open>The quiz of level 5 for the same random source, and the storage of a signed-in user.\<close>

definition level5_quiz :: "Question list" where
  "level5_quiz = snd (getLevelData (\<lambda>k. 1 / 3) 0 5)"

definition signed_in :: localStorage where
  "signed_in = [''user_id'' \<mapsto> ''7'']"

text \<open>A check of the camera quiz (tier pro, level 1) that the classifier accepts.\<close>

definition pass_check :: "localStorage \<Rightarrow> string list \<Rightarrow> camera_quiz_state \<Rightarrow> camera_quiz_state \<times> effect list" where
  "pass_check ls qs s =
     handleCheck_quiz ''pro'' 1 qs ls (Some 21)
       (good_response (currentLetter_of qs (currentQuestionIndex s))) s"

definition three_passed_state :: camera_quiz_state where
  "three_passed_state =
     (let qs = questions_quiz (\<lambda>k. 1 / 3) 0 1
      in fst (pass_check signed_in qs (fst (pass_check signed_in qs
           (fst (pass_check signed_in qs initial_camera_state))))))"

section \<open>Lemmas on \<open>shuffle\<close>\<close>

lemma floor_random_less:
  assumes "rng_ok rnd" and "0 < n"
  shows "floor_random rnd c n < n"
proof -
  from assms have r: "0 \<le> rnd c" "rnd c < 1"
    by (simp_all add: rng_ok_def)
  have "rnd c * of_nat n < of_nat n"
    using r assms(2) by simp
  then have "\<lfloor>rnd c * of_nat n\<rfloor> < int n"
    by (simp add: floor_less_iff)
  moreover have "0 \<le> \<lfloor>rnd c * of_nat n\<rfloor>"
    using r by simp
  ultimately show ?thesis
    unfolding floor_random_def by linarith
qed

lemma shuffle_loop_frame:
  assumes "rng_ok rnd" and "p < length h" and "k < length (h ! p)"
  shows "length (fst (shuffle_loop rnd c h p k)) = length h
       \<and> (\<forall>q. q \<noteq> p \<longrightarrow> fst (shuffle_loop rnd c h p k) ! q = h ! q)
       \<and> mset (fst (shuffle_loop rnd c h p k) ! p) = mset (h ! p)
       \<and> snd (shuffle_loop rnd c h p k) = c + k"
  using assms(2,3)
proof (induction k arbitrary: c h)
  case 0
  then show ?case by simp
next
  case (Suc k)
  let ?j = "floor_random rnd c (Suc k + 1)"
  let ?h = "swap_at h p (Suc k) ?j"
  have "?j < Suc k + 1"
    using floor_random_less[OF assms(1)] by simp
  then have jl: "?j < length (h ! p)"
    using Suc.prems by simp
  have m: "mset (?h ! p) = mset (h ! p)"
    using Suc.prems jl by (simp add: swap_at_def mset_swap)
  have l: "length ?h = length h"
    by (simp add: swap_at_def)
  have o: "\<And>q. q \<noteq> p \<Longrightarrow> ?h ! q = h ! q"
    by (simp add: swap_at_def)
  have kl: "k < length (?h ! p)"
    using Suc.prems by (simp add: swap_at_def)
  have pl: "p < length ?h"
    using Suc.prems l by simp
  from Suc.IH[OF pl kl, of "Suc c"] m l o show ?case
    by simp
qed

lemma shuffle_frame:
  assumes "rng_ok rnd" and "array < length h"
  shows "fst (snd (shuffle rnd c h array)) = length h"
    and "length (fst (shuffle rnd c h array)) = Suc (length h)"
    and "\<forall>q < length h. fst (shuffle rnd c h array) ! q = h ! q"
    and "mset (fst (shuffle rnd c h array) ! length h) = mset (h ! array)"
    and "snd (snd (shuffle rnd c h array)) = c + (length (h ! array) - 1)"
proof -
  let ?h1 = "h @ [h ! array]"
  let ?k = "length (h ! array) - 1"
  obtain h2 c2 where r: "shuffle_loop rnd c ?h1 (length h) ?k = (h2, c2)"
    by (cases "shuffle_loop rnd c ?h1 (length h) ?k") auto
  have s: "shuffle rnd c h array = (h2, length h, c2)"
    using r by (simp add: shuffle_def spread_copy_def)
  have f: "length h2 = length ?h1 \<and> (\<forall>q. q \<noteq> length h \<longrightarrow> h2 ! q = ?h1 ! q)
         \<and> mset (h2 ! length h) = mset (?h1 ! length h) \<and> c2 = c + ?k"
  proof (cases "h ! array = []")
    case True
    then show ?thesis using r by auto
  next
    case False
    have p: "length h < length ?h1" by simp
    have k: "?k < length (?h1 ! length h)" using False by simp
    from shuffle_loop_frame[OF assms(1) p k, of c] show ?thesis
      unfolding r by simp
  qed
  show "fst (snd (shuffle rnd c h array)) = length h"
    by (simp add: s)
  show "length (fst (shuffle rnd c h array)) = Suc (length h)"
    using f by (simp add: s)
  show "\<forall>q < length h. fst (shuffle rnd c h array) ! q = h ! q"
    using f by (simp add: s nth_append)
  show "mset (fst (shuffle rnd c h array) ! length h) = mset (h ! array)"
    using f by (simp add: s)
  show "snd (snd (shuffle rnd c h array)) = c + (length (h ! array) - 1)"
    using f by (simp add: s)
qed

lemma mset_shuffle_list:
  assumes "rng_ok rnd"
  shows "mset (fst (shuffle_list rnd c xs)) = mset xs"
  using shuffle_frame(1,4)[OF assms, of 0 "[xs]" c]
  by (auto simp: shuffle_list_def split: prod.splits)

lemma set_shuffle_list:
  assumes "rng_ok rnd"
  shows "set (fst (shuffle_list rnd c xs)) = set xs"
  using mset_shuffle_list[OF assms, of c xs] by (metis set_mset_mset)

lemma length_shuffle_list:
  assumes "rng_ok rnd"
  shows "length (fst (shuffle_list rnd c xs)) = length xs"
  using mset_shuffle_list[OF assms, of c xs] by (metis size_mset)

lemma snd_shuffle_list:
  assumes "rng_ok rnd"
  shows "snd (shuffle_list rnd c xs) = c + (length xs - 1)"
  using shuffle_frame(5)[OF assms, of 0 "[xs]" c]
  by (auto simp: shuffle_list_def split: prod.splits)

section \<open>Lemmas on \<open>slice\<close>\<close>

lemma js_slice_0:
  "js_slice xs 0 e = take (nat (if e < 0 then max (int (length xs) + e) 0 else min e (int (length xs)))) xs"
  by (simp add: js_slice_def Let_def)

lemma js_slice_0_nonneg:
  "0 \<le> e \<Longrightarrow> js_slice xs 0 e = take (nat e) xs"
  by (simp add: js_slice_0 min_def)

section \<open>Lemmas on the level content\<close>

lemma type_push_typing:
  "map type_q (push_typing xs qs) = map type_q qs @ replicate (length xs) typing"
  by (induction xs arbitrary: qs) (simp_all add: typing_question_def replicate_append_same)

lemma answer_push_typing:
  "map correctAnswer (push_typing xs qs) = map correctAnswer qs @ map (\<lambda>ld. Str (letter ld)) xs"
  by (induction xs arbitrary: qs) (simp_all add: typing_question_def)

lemma length_push_typing:
  "length (push_typing xs qs) = length qs + length xs"
  by (induction xs arbitrary: qs) simp_all

lemma push_typing_all_typing:
  "\<forall>q \<in> set (push_typing xs []). type_q q = typing"
proof -
  have "set (map type_q (push_typing xs [])) \<subseteq> {typing}"
    unfolding type_push_typing by auto
  then show ?thesis by auto
qed

lemma typing_stage_facts:
  assumes "rng_ok rnd"
  shows "length (fst (typing_stage rnd c level)) = length (quizLetters_of level)"
    and "\<forall>q \<in> set (fst (typing_stage rnd c level)). type_q q = typing"
    and "mset (map correctAnswer (fst (typing_stage rnd c level)))
         = mset (map (\<lambda>ld. Str (letter ld)) (quizLetters_of level))"
proof -
  obtain sh c' where s: "shuffle_list rnd c (quizLetters_of level) = (sh, c')"
    by (cases "shuffle_list rnd c (quizLetters_of level)") auto
  have t: "fst (typing_stage rnd c level) = push_typing sh []"
    by (simp add: typing_stage_def s)
  have m: "mset sh = mset (quizLetters_of level)"
    using mset_shuffle_list[OF assms, of c "quizLetters_of level"] by (simp add: s)
  show "length (fst (typing_stage rnd c level)) = length (quizLetters_of level)"
    unfolding t length_push_typing using m by (metis add_0 list.size(3) size_mset)
  show "\<forall>q \<in> set (fst (typing_stage rnd c level)). type_q q = typing"
    unfolding t by (rule push_typing_all_typing)
  have "mset (map correctAnswer (push_typing sh [])) = image_mset (\<lambda>ld. Str (letter ld)) (mset sh)"
    by (simp add: answer_push_typing)
  then show "mset (map correctAnswer (fst (typing_stage rnd c level)))
         = mset (map (\<lambda>ld. Str (letter ld)) (quizLetters_of level))"
    unfolding t m by simp
qed

lemma push_matching_shape:
  "\<exists>ms. fst (push_matching rnd c ql qs) = qs @ ms \<and> (\<forall>q \<in> set ms. type_q q = matching)
        \<and> length ms = (if 3 \<le> length ql then 1 else 0)"
  by (simp add: push_matching_def split: prod.splits)

lemma indexOf_member:
  "x \<in> set xs \<Longrightarrow> 0 \<le> indexOf xs x \<and> indexOf xs x < int (length xs)"
  by (induction xs) (auto simp: Let_def)

lemma splice_one_member:
  assumes "x \<in> set xs"
  shows "length (splice_one xs (indexOf xs x)) = length xs - 1"
    and "set (splice_one xs (indexOf xs x)) \<subseteq> set xs"
proof -
  from indexOf_member[OF assms] have i: "0 \<le> indexOf xs x" "indexOf xs x < int (length xs)"
    by simp_all
  then show "length (splice_one xs (indexOf xs x)) = length xs - 1"
    by (auto simp: splice_one_def)
  show "set (splice_one xs (indexOf xs x)) \<subseteq> set xs"
    using set_take_subset[of "nat (indexOf xs x)" xs] set_drop_subset[of "Suc (nat (indexOf xs x))" xs]
    by (auto simp: splice_one_def)
qed

lemma word_loop_shape:
  assumes "rng_ok rnd"
  shows "\<exists>ws. fst (word_loop rnd c n wos qs) = qs @ ws
            \<and> length ws = min n (length wos)
            \<and> (\<forall>q \<in> set ws. \<exists>k. \<exists>w \<in> set wos. q = spelling_question k w)"
proof (induction n arbitrary: c wos qs)
  case 0
  then show ?case by simp
next
  case (Suc n)
  show ?case
  proof (cases "wos = []")
    case True
    then show ?thesis by simp
  next
    case False
    let ?j = "floor_random rnd c (length wos)"
    let ?w = "wos ! ?j"
    let ?wos = "splice_one wos (indexOf wos ?w)"
    let ?qs = "qs @ [spelling_question (length qs) ?w]"
    have "?j < length wos"
      using floor_random_less[OF assms] False by simp
    then have w: "?w \<in> set wos" by simp
    from Suc.IH[of "Suc c" ?wos ?qs] obtain ws where
      ws: "fst (word_loop rnd (Suc c) n ?wos ?qs) = ?qs @ ws"
      "length ws = min n (length ?wos)"
      "\<forall>q \<in> set ws. \<exists>k. \<exists>w \<in> set ?wos. q = spelling_question k w"
      by blast
    have r: "fst (word_loop rnd c (Suc n) wos qs) = qs @ (spelling_question (length qs) ?w # ws)"
      using False ws(1) by (simp add: Let_def)
    have l: "length (spelling_question (length qs) ?w # ws) = min (Suc n) (length wos)"
      using ws(2) splice_one_member(1)[OF w] False by (cases wos) auto
    have m: "\<forall>q \<in> set (spelling_question (length qs) ?w # ws). \<exists>k. \<exists>w \<in> set wos. q = spelling_question k w"
      using ws(3) splice_one_member(2)[OF w] w by (meson set_ConsD subsetD)
    from r l m show ?thesis by blast
  qed
qed


lemma push_words_shape:
  assumes "rng_ok rnd"
  shows "\<exists>ws. fst (push_words rnd c level ql qs) = qs @ ws
            \<and> length ws = (if 2 \<le> level \<and> 3 \<le> length ql
                            then min (if 3 \<le> level then 2 else 1) (length (wordOptions_of ql))
                            else 0)
            \<and> (\<forall>q \<in> set ws. \<exists>k. \<exists>w \<in> set (wordOptions_of ql). q = spelling_question k w)"
proof (cases "2 \<le> level \<and> 3 \<le> length ql")
  case True
  from word_loop_shape[OF assms, of c "if 3 \<le> level then 2 else 1" "wordOptions_of ql" qs]
  show ?thesis using True by (simp add: push_words_def)
next
  case False
  then show ?thesis by (auto simp: push_words_def)
qed

lemma getLevelData_shape:
  assumes "rng_ok rnd"
  shows "\<exists>ms ws. mset (snd (getLevelData rnd c level))
                  = mset (fst (typing_stage rnd c level)) + mset ms + mset ws
          \<and> (\<forall>q \<in> set ms. type_q q = matching)
          \<and> length ms = (if 3 \<le> length (quizLetters_of level) then 1 else 0)
          \<and> length ws = (if 2 \<le> level \<and> 3 \<le> length (quizLetters_of level)
                          then min (if 3 \<le> level then 2 else 1)
                                 (length (wordOptions_of (quizLetters_of level)))
                          else 0)
          \<and> (\<forall>q \<in> set ws. \<exists>k. \<exists>w \<in> set (wordOptions_of (quizLetters_of level)).
                 q = spelling_question k w)"
proof -
  let ?ql = "quizLetters_of level"
  obtain q1 c1 where t: "typing_stage rnd c level = (q1, c1)"
    by (cases "typing_stage rnd c level") auto
  obtain q2 c2 where m: "push_matching rnd c1 ?ql q1 = (q2, c2)"
    by (cases "push_matching rnd c1 ?ql q1") auto
  obtain q3 c3 where w: "push_words rnd c2 level ?ql q2 = (q3, c3)"
    by (cases "push_words rnd c2 level ?ql q2") auto
  from push_matching_shape[of rnd c1 ?ql q1] m obtain ms where
    ms: "q2 = q1 @ ms" "\<forall>q \<in> set ms. type_q q = matching"
        "length ms = (if 3 \<le> length ?ql then 1 else 0)"
    by auto
  from push_words_shape[OF assms, of c2 level ?ql q2] w obtain ws where
    ws: "q3 = q2 @ ws"
        "length ws = (if 2 \<le> level \<and> 3 \<le> length ?ql
                      then min (if 3 \<le> level then 2 else 1) (length (wordOptions_of ?ql))
                      else 0)"
        "\<forall>q \<in> set ws. \<exists>k. \<exists>w \<in> set (wordOptions_of ?ql). q = spelling_question k w"
    by auto
  have "snd (getLevelData rnd c level) = fst (shuffle_list rnd c3 q3)"
    by (simp add: getLevelData_def Let_def t m w)
  then have g: "mset (snd (getLevelData rnd c level))
                = mset (fst (typing_stage rnd c level)) + mset ms + mset ws"
    using mset_shuffle_list[OF assms, of c3 q3] ms(1) ws(1) by (simp add: t)
  show ?thesis
    using g ms(2,3) ws(2,3) by (intro exI[of _ ms] exI[of _ ws] conjI)
qed

lemma length_allLettersData: "length allLettersData = 23"
  by (simp add: allLettersData_def)

lemma quizLetters_of_nonneg:
  "0 \<le> level \<Longrightarrow> quizLetters_of level = take (nat (4 * level)) allLettersData"
  by (simp add: quizLetters_of_def js_slice_0_nonneg lettersPerLevel_def mult.commute)

lemma first_eight_letters:
  assumes "2 \<le> level"
  shows "{''A'', ''B'', ''C'', ''D''} \<subseteq> letter ` set (quizLetters_of level)"
    and "8 \<le> length (quizLetters_of level)"
proof -
  have q: "quizLetters_of level = take (nat (4 * level)) allLettersData"
    using assms by (simp add: quizLetters_of_nonneg)
  have "8 \<le> nat (4 * level)" using assms by simp
  then have "set (take 8 allLettersData) \<subseteq> set (quizLetters_of level)"
    unfolding q by (rule set_take_subset_set_take)
  moreover have "{''A'', ''B'', ''C'', ''D''} \<subseteq> letter ` set (take 8 allLettersData)"
    by (simp add: allLettersData_def)
  ultimately show "{''A'', ''B'', ''C'', ''D''} \<subseteq> letter ` set (quizLetters_of level)"
    by blast
  show "8 \<le> length (quizLetters_of level)"
    unfolding q using assms by (simp add: length_allLettersData)
qed

lemma two_members_length:
  assumes "x \<in> set xs" and "y \<in> set xs" and "x \<noteq> y"
  shows "2 \<le> length xs"
proof -
  have "card {x, y} \<le> card (set xs)"
    using assms(1,2) by (intro card_mono) auto
  also have "\<dots> \<le> length xs" by (rule card_length)
  finally show ?thesis using assms(3) by simp
qed

lemma two_word_options:
  assumes "2 \<le> level"
  shows "2 \<le> length (wordOptions_of (quizLetters_of level))"
proof -
  let ?bad = "\<lparr>word_w = ''BAD'', letters = [''B'', ''A'', ''D'']\<rparr>"
  let ?cab = "\<lparr>word_w = ''CAB'', letters = [''C'', ''A'', ''B'']\<rparr>"
  from first_eight_letters(1)[OF assms]
  have l: "''A'' \<in> letter ` set (quizLetters_of level)" "''B'' \<in> letter ` set (quizLetters_of level)"
    "''C'' \<in> letter ` set (quizLetters_of level)" "''D'' \<in> letter ` set (quizLetters_of level)"
    by auto
  have a: "?bad \<in> set allWordOptions" "?cab \<in> set allWordOptions"
    by (simp_all add: allWordOptions_def)
  have "?bad \<in> set (wordOptions_of (quizLetters_of level))"
    using a(1) l by (simp add: wordOptions_of_def)
  moreover have "?cab \<in> set (wordOptions_of (quizLetters_of level))"
    using a(2) l by (simp add: wordOptions_of_def)
  moreover have "?bad \<noteq> ?cab" by simp
  ultimately show ?thesis by (rule two_members_length)
qed

lemma word_table_spelled:
  "\<forall>w \<in> set allWordOptions.
     letters w = map (\<lambda>ch. [ch]) (word_w w) \<and> toUpperCase (word_w w) = word_w w"
  by code_simp


lemma type_spelling_question [simp]: "type_q (spelling_question k w) = word_spelling"
  by (simp add: spelling_question_def)

lemma filter_typing_final:
  assumes "rng_ok rnd"
  shows "mset (filter (\<lambda>q. type_q q = typing) (snd (getLevelData rnd c level)))
         = mset (fst (typing_stage rnd c level))"
proof -
  from getLevelData_shape[OF assms, of c level] obtain ms ws where
    g: "mset (snd (getLevelData rnd c level)) = mset (fst (typing_stage rnd c level)) + mset ms + mset ws"
    and ms: "\<forall>q \<in> set ms. type_q q = matching"
    and ws: "\<forall>q \<in> set ws. \<exists>k. \<exists>w \<in> set (wordOptions_of (quizLetters_of level)). q = spelling_question k w"
    by blast
  have 1: "filter (\<lambda>q. type_q q = typing) ms = []"
    using ms by (auto simp: filter_empty_conv)
  have 2: "filter (\<lambda>q. type_q q = typing) ws = []"
    using ws by (auto simp: filter_empty_conv)
  have 3: "filter (\<lambda>q. type_q q = typing) (fst (typing_stage rnd c level)) = fst (typing_stage rnd c level)"
    using typing_stage_facts(2)[OF assms, of c level] by (simp add: filter_id_conv)
  have "mset (filter (\<lambda>q. type_q q = typing) (snd (getLevelData rnd c level)))
        = filter_mset (\<lambda>q. type_q q = typing) (mset (snd (getLevelData rnd c level)))"
    by simp
  also have "\<dots> = mset (filter (\<lambda>q. type_q q = typing) (fst (typing_stage rnd c level)))
                  + mset (filter (\<lambda>q. type_q q = typing) ms)
                  + mset (filter (\<lambda>q. type_q q = typing) ws)"
    unfolding g by simp
  finally show ?thesis by (simp add: 1 2 3)
qed

lemma filter_spelling_final:
  assumes "rng_ok rnd"
  shows "\<exists>ws. mset (filter (\<lambda>q. type_q q = word_spelling) (snd (getLevelData rnd c level))) = mset ws
          \<and> length ws = (if 2 \<le> level \<and> 3 \<le> length (quizLetters_of level)
                          then min (if 3 \<le> level then 2 else 1)
                                 (length (wordOptions_of (quizLetters_of level)))
                          else 0)
          \<and> (\<forall>q \<in> set ws. \<exists>k. \<exists>w \<in> set (wordOptions_of (quizLetters_of level)).
                 q = spelling_question k w)"
proof -
  from getLevelData_shape[OF assms, of c level] obtain ms ws where
    g: "mset (snd (getLevelData rnd c level)) = mset (fst (typing_stage rnd c level)) + mset ms + mset ws"
    and ms: "\<forall>q \<in> set ms. type_q q = matching"
    and wl: "length ws = (if 2 \<le> level \<and> 3 \<le> length (quizLetters_of level)
                          then min (if 3 \<le> level then 2 else 1)
                                 (length (wordOptions_of (quizLetters_of level)))
                          else 0)"
    and ws: "\<forall>q \<in> set ws. \<exists>k. \<exists>w \<in> set (wordOptions_of (quizLetters_of level)). q = spelling_question k w"
    by blast
  have 1: "filter (\<lambda>q. type_q q = word_spelling) ms = []"
    using ms by (auto simp: filter_empty_conv)
  have 2: "filter (\<lambda>q. type_q q = word_spelling) ws = ws"
    using ws by (auto simp: filter_id_conv)
  have 3: "filter (\<lambda>q. type_q q = word_spelling) (fst (typing_stage rnd c level)) = []"
    using typing_stage_facts(2)[OF assms, of c level] by (auto simp: filter_empty_conv)
  have "mset (filter (\<lambda>q. type_q q = word_spelling) (snd (getLevelData rnd c level)))
        = filter_mset (\<lambda>q. type_q q = word_spelling) (mset (snd (getLevelData rnd c level)))"
    by simp
  also have "\<dots> = mset (filter (\<lambda>q. type_q q = word_spelling) (fst (typing_stage rnd c level)))
                  + mset (filter (\<lambda>q. type_q q = word_spelling) ms)
                  + mset (filter (\<lambda>q. type_q q = word_spelling) ws)"
    unfolding g by simp
  finally have "mset (filter (\<lambda>q. type_q q = word_spelling) (snd (getLevelData rnd c level))) = mset ws"
    by (simp add: 1 2 3)
  with wl ws show ?thesis by blast
qed

lemma spelling_question_letters:
  assumes "w \<in> set (wordOptions_of ql)"
  shows "word (spelling_question k w) = Some (word_w w)"
    and "correctAnswer (spelling_question k w) = Str (word_w w)"
    and "\<forall>ch \<in> set (word_w w). [ch] \<in> letter ` set ql"
proof -
  from assms have a: "w \<in> set allWordOptions"
    and l: "list_all (\<lambda>l. l \<in> set (map letter ql)) (letters w)"
    by (simp_all add: wordOptions_of_def)
  from word_table_spelled a have t: "letters w = map (\<lambda>ch. [ch]) (word_w w)"
    "toUpperCase (word_w w) = word_w w"
    by auto
  show "word (spelling_question k w) = Some (word_w w)"
    by (simp add: spelling_question_def t(2))
  show "correctAnswer (spelling_question k w) = Str (word_w w)"
    by (simp add: spelling_question_def t(2))
  show "\<forall>ch \<in> set (word_w w). [ch] \<in> letter ` set ql"
    using l unfolding t(1) by (simp add: list_all_iff)
qed

section \<open>Lemmas on scoring and submission\<close>

lemma fold_score_step:
  "fold (score_step d idx) ps b = (b \<and> all_pairs_correct d idx ps)"
  by (induction ps arbitrary: b) (auto simp: score_step_def all_pairs_correct_def)

lemma fold_drop_step:
  assumes "\<forall>p \<in> set ps. sign p \<noteq> []"
  shows "fold (drop_step d idx) ps b = (b \<and> all_pairs_correct d idx ps)"
  using assms
  by (induction ps arbitrary: b) (auto simp: drop_step_def all_pairs_correct_def Let_def)

lemma counts_correct_scored: "counts_correct s idx q = scored_match s idx q"
  by (cases "type_q q")
     (auto simp: counts_correct_def fold_score_step spelled_answer_def Let_def split: option.splits)

lemma score_loop_count:
  "score_loop s i qs n = n + length (filter (\<lambda>(idx, q). scored_match s idx q) (enumerate i qs))"
  by (induction qs arbitrary: i n) (simp_all add: counts_correct_scored)

lemma round_percent_round:
  "0 < n \<Longrightarrow> round_percent k n = Number (round (100 * of_nat k / of_nat n :: rat))"
  by (simp add: round_percent_def Math_round_def round_def mult.commute)

lemma levelComplete_after_save [simp]:
  "levelComplete (after_save saved p s) = levelComplete s"
  by (cases "(saved, p, s)" rule: after_save.cases) simp_all

lemma next_tier_code:
  "(let currentTierIndex = indexOf tierOrder (tier_name tierType)
    in if currentTierIndex < int (length tierOrder) - 1
       then tierOrder ! nat (currentTierIndex + 1) else tier_name tierType)
   = tier_name (next_tier tierType)"
  by (cases tierType) (simp_all add: tierOrder_def)

lemma after_progress_cases:
  "after_progress progressed t n ls
   = (if progressed = ProgressData True
      then ls(''level_type'' \<mapsto> t, ''level_number'' \<mapsto> number_toString n) else ls)"
  by (cases "(progressed, t, n, ls)" rule: after_progress.cases) simp_all

lemma submit_effects:
  "snd (snd (handleSubmitQuiz tierType levelNumber questions saved progressed s ls))
   = (if truthy (ls ''user_id'')
      then SaveScore (the (ls ''user_id'')) (tier_name tierType) levelNumber
             (round_percent (calculateScore questions s) (length questions))
           # (if round_percent (calculateScore questions s) (length questions) = Number 100
              then [UpdateProgress (the (ls ''user_id''))
                      (if levelNumber = 5 then tier_name (next_tier tierType) else tier_name tierType)
                      (if levelNumber = 5 then 1 else levelNumber + 1)]
              else [])
      else [])"
  using next_tier_code[of tierType]
  by (simp add: handleSubmitQuiz_def Let_def)

lemma submit_storage:
  "fst (snd (handleSubmitQuiz tierType levelNumber questions saved progressed s ls))
   = (if round_percent (calculateScore questions s) (length questions) = Number 100
         \<and> truthy (ls ''user_id'')
      then after_progress progressed
             (if levelNumber = 5 then tier_name (next_tier tierType) else tier_name tierType)
             (if levelNumber = 5 then 1 else levelNumber + 1) ls
      else ls)"
  using next_tier_code[of tierType]
  by (simp add: handleSubmitQuiz_def Let_def)

lemma submit_levelComplete:
  "levelComplete (fst (handleSubmitQuiz tierType levelNumber questions saved progressed s ls))
   = (levelComplete s
      \<or> (round_percent (calculateScore questions s) (length questions) = Number 100
          \<and> truthy (ls ''user_id'')))"
  by (simp add: handleSubmitQuiz_def Let_def)

section \<open>Lemmas on the camera handlers\<close>

lemma handleCheck_quiz_results:
  assumes "\<not> no_hand landmarks"
  shows "evaluationResults_q
           (fst (handleCheck_quiz tierType levelNumber questions ls landmarks (CheckOk data) s))
         = (if match data \<and> meets_threshold (confidence data) (currentConfig_quiz tierType)
            then evaluationResults_q s
                 @ [\<lparr>letter_r = currentLetter_of questions (currentQuestionIndex s), correct = True\<rparr>]
            else evaluationResults_q s)"
  using assms by (simp add: handleCheck_quiz_def Let_def)

lemma handleCheck_eval_results:
  assumes "\<not> no_hand landmarks"
  shows "evaluationResults_e
           (fst (handleCheck_eval tier expectedLetters landmarks (CheckOk data) e))
         = (if match data \<and> config_eval tier \<le> confidence data
            then evaluationResults_e e
                 @ [\<lparr>letter_r = currentLetter_of expectedLetters (currentLetterIndex e), correct = True\<rparr>]
            else evaluationResults_e e)"
  using assms by (simp add: handleCheck_eval_def Let_def)

lemma currentConfig_quiz_own:
  "currentConfig_quiz ''pro'' = Some (7 / 10)" "currentConfig_quiz ''expert'' = Some (7 / 10)"
  by (simp_all add: currentConfig_quiz_def config_quiz_def)

section \<open>Claims\<close>

text \<open>
  C10. For every input list, \<open>shuffle\<close> returns a list of the same length whose elements
  form the same multiset as the input (a permutation), and it does not modify the input
  list: the result is a freshly allocated array, and every array that existed before the
  call, the argument among them, holds afterwards what it held before.
\<close>

theorem shuffle_permutation_fresh:
  assumes "rng_ok rnd" and "array < length h"
  shows "case shuffle rnd c h array of (h', shuffled, c') \<Rightarrow>
           length (h' ! shuffled) = length (h ! array)
         \<and> mset (h' ! shuffled) = mset (h ! array)
         \<and> shuffled \<noteq> array
         \<and> h' ! array = h ! array
         \<and> (\<forall>q < length h. h' ! q = h ! q)"
proof -
  obtain h' shuffled c' where s: "shuffle rnd c h array = (h', shuffled, c')"
    by (cases "shuffle rnd c h array") auto
  from shuffle_frame(1,3,4)[OF assms, of c]
  have f: "shuffled = length h" "\<forall>q < length h. h' ! q = h ! q"
    "mset (h' ! length h) = mset (h ! array)"
    by (simp_all add: s)
  from f(3) have "length (h' ! length h) = length (h ! array)"
    by (metis size_mset)
  with f assms(2) show ?thesis
    by (simp add: s)
qed

theorem shuffle_permutation_fresh_witness:
  "rng_ok (\<lambda>k. 1 / 3) \<and> (0::nat) < length [[1, 2, 3, 4 :: nat]]
   \<and> (case shuffle (\<lambda>k. 1 / 3) 0 [[1, 2, 3, 4 :: nat]] 0 of (h', shuffled, c') \<Rightarrow>
         h' ! shuffled = [3, 1, 4, 2] \<and> h' ! 0 = [1, 2, 3, 4]
       \<and> length (h' ! shuffled) = length ([[1, 2, 3, 4 :: nat]] ! 0)
       \<and> mset (h' ! shuffled) = mset ([[1, 2, 3, 4 :: nat]] ! 0)
       \<and> shuffled \<noteq> 0)"
proof -
  have ok: "rng_ok (\<lambda>k. 1 / 3)"
    by (simp add: rng_ok_def)
  have l: "(0::nat) < length [[1, 2, 3, 4 :: nat]]"
    by simp
  have e: "shuffle (\<lambda>k. 1 / 3) 0 [[1, 2, 3, 4 :: nat]] 0 = ([[1, 2, 3, 4], [3, 1, 4, 2]], 1, 3)"
    by code_simp
  from shuffle_permutation_fresh[OF ok l, of 0] ok e show ?thesis
    by simp
qed

text \<open>
  C9. The two camera entry points use the thresholds recorded for each call site in their
  pass check: with a hand cached and an answer of the classifier, the evaluation component
  records the letter as correct exactly when \<open>match\<close> holds and the confidence is at least
  0.70 for tier pro and at least 0.85 for tier expert, while the camera quiz page does so
  exactly when \<open>match\<close> holds and the confidence is at least 0.70, for pro and for expert.
\<close>

theorem confidence_thresholds:
  assumes "\<not> no_hand landmarks"
  shows "evaluationResults_e (fst (handleCheck_eval tier_pro expectedLetters landmarks (CheckOk data) e))
         = (if match data \<and> 7 / 10 \<le> confidence data
            then evaluationResults_e e
                 @ [\<lparr>letter_r = currentLetter_of expectedLetters (currentLetterIndex e), correct = True\<rparr>]
            else evaluationResults_e e)
       \<and> evaluationResults_e (fst (handleCheck_eval tier_expert expectedLetters landmarks (CheckOk data) e))
         = (if match data \<and> 85 / 100 \<le> confidence data
            then evaluationResults_e e
                 @ [\<lparr>letter_r = currentLetter_of expectedLetters (currentLetterIndex e), correct = True\<rparr>]
            else evaluationResults_e e)
       \<and> evaluationResults_q
           (fst (handleCheck_quiz ''pro'' levelNumber questions ls landmarks (CheckOk data) s))
         = (if match data \<and> 7 / 10 \<le> confidence data
            then evaluationResults_q s
                 @ [\<lparr>letter_r = currentLetter_of questions (currentQuestionIndex s), correct = True\<rparr>]
            else evaluationResults_q s)
       \<and> evaluationResults_q
           (fst (handleCheck_quiz ''expert'' levelNumber questions ls landmarks (CheckOk data) s))
         = (if match data \<and> 7 / 10 \<le> confidence data
            then evaluationResults_q s
                 @ [\<lparr>letter_r = currentLetter_of questions (currentQuestionIndex s), correct = True\<rparr>]
            else evaluationResults_q s)"
proof -
  note e = handleCheck_eval_results[OF assms]
  note q = handleCheck_quiz_results[OF assms]
  have 1: "evaluationResults_e (fst (handleCheck_eval tier_pro expectedLetters landmarks (CheckOk data) e))
         = (if match data \<and> 7 / 10 \<le> confidence data
            then evaluationResults_e e
                 @ [\<lparr>letter_r = currentLetter_of expectedLetters (currentLetterIndex e), correct = True\<rparr>]
            else evaluationResults_e e)"
    by (simp add: e)
  have 2: "evaluationResults_e (fst (handleCheck_eval tier_expert expectedLetters landmarks (CheckOk data) e))
         = (if match data \<and> 85 / 100 \<le> confidence data
            then evaluationResults_e e
                 @ [\<lparr>letter_r = currentLetter_of expectedLetters (currentLetterIndex e), correct = True\<rparr>]
            else evaluationResults_e e)"
    by (simp add: e)
  have 3: "evaluationResults_q
           (fst (handleCheck_quiz ''pro'' levelNumber questions ls landmarks (CheckOk data) s))
         = (if match data \<and> 7 / 10 \<le> confidence data
            then evaluationResults_q s
                 @ [\<lparr>letter_r = currentLetter_of questions (currentQuestionIndex s), correct = True\<rparr>]
            else evaluationResults_q s)"
    by (simp add: q currentConfig_quiz_own)
  have 4: "evaluationResults_q
           (fst (handleCheck_quiz ''expert'' levelNumber questions ls landmarks (CheckOk data) s))
         = (if match data \<and> 7 / 10 \<le> confidence data
            then evaluationResults_q s
                 @ [\<lparr>letter_r = currentLetter_of questions (currentQuestionIndex s), correct = True\<rparr>]
            else evaluationResults_q s)"
    by (simp add: q currentConfig_quiz_own)
  from 1 2 3 4 show ?thesis by blast
qed

text \<open>
  A matching answer of confidence 0.8 for tier expert: the quiz page records it, the
  evaluation component does not; for tier pro both record it.
\<close>

theorem confidence_thresholds_witness:
  "\<not> no_hand (Some 21)
   \<and> evaluationResults_q
       (fst (handleCheck_quiz ''expert'' 1 [''A'', ''B''] Map.empty (Some 21)
          (CheckOk \<lparr>success = True, match = True, target = ''A'', prediction = ''A'',
                    confidence = 8 / 10, message = None\<rparr>) initial_camera_state))
     = [\<lparr>letter_r = ''A'', correct = True\<rparr>]
   \<and> evaluationResults_e
       (fst (handleCheck_eval tier_expert [''A'', ''B''] (Some 21)
          (CheckOk \<lparr>success = True, match = True, target = ''A'', prediction = ''A'',
                    confidence = 8 / 10, message = None\<rparr>)
          \<lparr>error_e = [], checking_e = False, result_e = None, currentLetterIndex = 0,
           evaluationResults_e = []\<rparr>))
     = []
   \<and> evaluationResults_e
       (fst (handleCheck_eval tier_pro [''A'', ''B''] (Some 21)
          (CheckOk \<lparr>success = True, match = True, target = ''A'', prediction = ''A'',
                    confidence = 8 / 10, message = None\<rparr>)
          \<lparr>error_e = [], checking_e = False, result_e = None, currentLetterIndex = 0,
           evaluationResults_e = []\<rparr>))
     = [\<lparr>letter_r = ''A'', correct = True\<rparr>]"
proof -
  have h: "\<not> no_hand (Some 21)"
    by simp
  from confidence_thresholds[OF h, of "[''A'', ''B'']"
      "\<lparr>success = True, match = True, target = ''A'', prediction = ''A'',
                    confidence = 8 / 10, message = None\<rparr>"
      "\<lparr>error_e = [], checking_e = False, result_e = None, currentLetterIndex = 0,
           evaluationResults_e = []\<rparr>"
      1 "[''A'', ''B'']" Map.empty initial_camera_state]
  show ?thesis
    by (simp add: currentLetter_of_def initial_camera_state_def)
qed

text \<open>
  C2. In both camera handlers, once a hand is cached and the classifier has answered, the
  check passes (the letter is recorded as correct) exactly when the response has
  \<open>match\<close> true and \<open>confidence\<close> at least the tier's threshold; so a confidence equal to the
  threshold passes, and a response with \<open>match\<close> false never passes. On the quiz page the
  tier's threshold is what \<open>currentConfig\<close> yields for the tier text; for a text that yields
  none, no check passes.
\<close>

theorem check_passes_iff:
  assumes "\<not> no_hand landmarks"
  shows "(currentConfig_quiz tierType = Some threshold \<longrightarrow>
          evaluationResults_q
            (fst (handleCheck_quiz tierType levelNumber questions ls landmarks (CheckOk data) s))
          = (if match data \<and> threshold \<le> confidence data
             then evaluationResults_q s
                  @ [\<lparr>letter_r = currentLetter_of questions (currentQuestionIndex s), correct = True\<rparr>]
             else evaluationResults_q s))
       \<and> (currentConfig_quiz tierType = None \<longrightarrow>
          evaluationResults_q
            (fst (handleCheck_quiz tierType levelNumber questions ls landmarks (CheckOk data) s))
          = evaluationResults_q s)
       \<and> evaluationResults_e
           (fst (handleCheck_eval tier expectedLetters landmarks (CheckOk data) e))
         = (if match data \<and> config_eval tier \<le> confidence data
            then evaluationResults_e e
                 @ [\<lparr>letter_r = currentLetter_of expectedLetters (currentLetterIndex e), correct = True\<rparr>]
            else evaluationResults_e e)"
  using handleCheck_quiz_results[OF assms, of tierType levelNumber questions ls data s]
    handleCheck_eval_results[OF assms, of tier expectedLetters data e]
  by simp

text \<open>
  Answers whose confidence equals the threshold pass: 0.7 on the quiz page for tier pro,
  0.85 in the evaluation component for tier expert.
\<close>

theorem check_passes_iff_witness:
  "\<not> no_hand (Some 21) \<and> currentConfig_quiz ''pro'' = Some (7 / 10)
   \<and> evaluationResults_q
       (fst (handleCheck_quiz ''pro'' 1 [''A'', ''B''] Map.empty (Some 21)
          (CheckOk \<lparr>success = True, match = True, target = ''A'', prediction = ''A'',
                    confidence = 7 / 10, message = None\<rparr>)
          \<lparr>error_q = [], checking_q = False, result_q = None, currentQuestionIndex = 0,
           evaluationResults_q = [], showResults_q = False\<rparr>))
     = [\<lparr>letter_r = ''A'', correct = True\<rparr>]
   \<and> evaluationResults_e
       (fst (handleCheck_eval tier_expert [''A'', ''B''] (Some 21)
          (CheckOk \<lparr>success = True, match = True, target = ''A'', prediction = ''A'',
                    confidence = 85 / 100, message = None\<rparr>)
          \<lparr>error_e = [], checking_e = False, result_e = None, currentLetterIndex = 0,
           evaluationResults_e = []\<rparr>))
     = [\<lparr>letter_r = ''A'', correct = True\<rparr>]"
proof -
  have h: "\<not> no_hand (Some 21)"
    by simp
  have t: "currentConfig_quiz ''pro'' = Some (7 / 10)"
    by (simp add: currentConfig_quiz_def config_quiz_def)
  from check_passes_iff[OF h, of "''pro''" "7 / 10" 1 "[''A'', ''B'']" Map.empty
      "\<lparr>success = True, match = True, target = ''A'', prediction = ''A'',
                    confidence = 7 / 10, message = None\<rparr>"
      "\<lparr>error_q = [], checking_q = False, result_q = None, currentQuestionIndex = 0,
           evaluationResults_q = [], showResults_q = False\<rparr>"]
    check_passes_iff[OF h, of "''pro''" "7 / 10" 1 "[''A'', ''B'']" Map.empty
      "\<lparr>success = True, match = True, target = ''A'', prediction = ''A'',
                    confidence = 85 / 100, message = None\<rparr>"
      "\<lparr>error_q = [], checking_q = False, result_q = None, currentQuestionIndex = 0,
           evaluationResults_q = [], showResults_q = False\<rparr>"
      tier_expert "[''A'', ''B'']"
      "\<lparr>error_e = [], checking_e = False, result_e = None, currentLetterIndex = 0,
           evaluationResults_e = []\<rparr>"]
  show ?thesis
    using h t by (simp add: currentLetter_of_def)
qed

text \<open>
  C7. The supported letters are A, B, C, D, H, L, V, Y, W; every target of a camera quiz
  session is one of them, and for a level number that is not negative the questions are a
  permutation of the first \<open>min (4 * levelNumber) 9\<close> letters of that list.
\<close>

theorem camera_targets_supported:
  assumes "rng_ok rnd"
  shows "set allLetters = {''A'', ''B'', ''C'', ''D'', ''H'', ''L'', ''V'', ''Y'', ''W''}
       \<and> set (questions_quiz rnd c levelNumber) \<subseteq> set allLetters
       \<and> (\<forall>i < length (questions_quiz rnd c levelNumber).
            currentLetter_of (questions_quiz rnd c levelNumber) i \<in> set allLetters)
       \<and> (0 \<le> levelNumber \<longrightarrow>
            mset (questions_quiz rnd c levelNumber)
            = mset (take (nat (min (4 * levelNumber) 9)) allLetters))"
proof -
  let ?ql = "js_slice allLetters 0 (levelNumber * lettersPerLevel)"
  have q: "questions_quiz rnd c levelNumber = fst (shuffle_list rnd c ?ql)"
    by (simp add: questions_quiz_def)
  have s: "set (questions_quiz rnd c levelNumber) \<subseteq> set allLetters"
    unfolding q set_shuffle_list[OF assms] js_slice_0 by (rule set_take_subset)
  have m: "mset (questions_quiz rnd c levelNumber) = mset (take (nat (min (4 * levelNumber) 9)) allLetters)"
    if "0 \<le> levelNumber"
  proof -
    have "?ql = take (nat (min (4 * levelNumber) 9)) allLetters"
      using that by (simp add: js_slice_0 lettersPerLevel_def allLetters_def min_def mult.commute)
    then show ?thesis
      unfolding q mset_shuffle_list[OF assms] by simp
  qed
  have a: "set allLetters = {''A'', ''B'', ''C'', ''D'', ''H'', ''L'', ''V'', ''Y'', ''W''}"
    by (simp add: allLetters_def)
  have i: "\<forall>i < length (questions_quiz rnd c levelNumber).
            currentLetter_of (questions_quiz rnd c levelNumber) i \<in> set allLetters"
    using s by (auto simp: currentLetter_of_def)
  from a s i m show ?thesis by blast
qed

theorem camera_targets_supported_witness:
  "rng_ok (\<lambda>k. 1 / 3) \<and> (0::int) \<le> 1
   \<and> questions_quiz (\<lambda>k. 1 / 3) 0 1 = [''C'', ''A'', ''D'', ''B'']
   \<and> set (questions_quiz (\<lambda>k. 1 / 3) 0 1) \<subseteq> set allLetters
   \<and> mset (questions_quiz (\<lambda>k. 1 / 3) 0 1) = mset (take (nat (min (4 * 1) 9)) allLetters)"
proof -
  have ok: "rng_ok (\<lambda>k. 1 / 3)"
    by (simp add: rng_ok_def)
  have e: "questions_quiz (\<lambda>k. 1 / 3) 0 1 = [''C'', ''A'', ''D'', ''B'']"
    by code_simp
  from camera_targets_supported[OF ok, of 0 1] ok e show ?thesis
    by simp
qed

text \<open>
  C5. For every level number from 1 on with \<open>4 * levelNumber \<le> 23\<close>, the question list holds
  exactly \<open>4 * levelNumber\<close> typing questions, one per letter of the cumulative slice: this
  holds of the list before the matching and word questions are added, and of the typing
  questions of the final list.
\<close>

theorem typing_questions_per_letter:
  assumes "rng_ok rnd" and "1 \<le> levelNumber" and "4 * levelNumber \<le> 23"
  shows "length (fst (typing_stage rnd c levelNumber)) = nat (4 * levelNumber)
       \<and> (\<forall>q \<in> set (fst (typing_stage rnd c levelNumber)). type_q q = typing)
       \<and> mset (map correctAnswer (fst (typing_stage rnd c levelNumber)))
         = mset (map (\<lambda>ld. Str (letter ld)) (take (nat (4 * levelNumber)) allLettersData))
       \<and> length (filter (\<lambda>q. type_q q = typing) (snd (getLevelData rnd c levelNumber)))
         = nat (4 * levelNumber)
       \<and> mset (map correctAnswer
                 (filter (\<lambda>q. type_q q = typing) (snd (getLevelData rnd c levelNumber))))
         = mset (map (\<lambda>ld. Str (letter ld)) (take (nat (4 * levelNumber)) allLettersData))"
proof -
  let ?ts = "fst (typing_stage rnd c levelNumber)"
  let ?fs = "filter (\<lambda>q. type_q q = typing) (snd (getLevelData rnd c levelNumber))"
  have q: "quizLetters_of levelNumber = take (nat (4 * levelNumber)) allLettersData"
    using assms(2) by (simp add: quizLetters_of_nonneg)
  have l: "length (quizLetters_of levelNumber) = nat (4 * levelNumber)"
    unfolding q using assms(3) by (simp add: length_allLettersData)
  note t = typing_stage_facts[OF assms(1), of c levelNumber]
  have f: "mset ?fs = mset ?ts"
    by (rule filter_typing_final[OF assms(1)])
  have 1: "length ?ts = nat (4 * levelNumber)"
    using t(1) l by simp
  have 3: "mset (map correctAnswer ?ts)
           = mset (map (\<lambda>ld. Str (letter ld)) (take (nat (4 * levelNumber)) allLettersData))"
    using t(3) q by simp
  have 4: "length ?fs = nat (4 * levelNumber)"
    using f 1 by (metis size_mset)
  have "mset (map correctAnswer ?fs) = image_mset correctAnswer (mset ?fs)"
    by simp
  also have "\<dots> = mset (map correctAnswer ?ts)"
    unfolding f by simp
  finally have 5: "mset (map correctAnswer ?fs)
           = mset (map (\<lambda>ld. Str (letter ld)) (take (nat (4 * levelNumber)) allLettersData))"
    using 3 by simp
  from 1 t(2) 3 4 5 show ?thesis by blast
qed

theorem typing_questions_per_letter_witness:
  "rng_ok (\<lambda>k. 1 / 3) \<and> (1::int) \<le> 1 \<and> 4 * (1::int) \<le> 23
   \<and> map correctAnswer (fst (typing_stage (\<lambda>k. 1 / 3) 0 1))
     = [Str ''C'', Str ''A'', Str ''D'', Str ''B'']
   \<and> length (fst (typing_stage (\<lambda>k. 1 / 3) 0 1)) = 4
   \<and> length (filter (\<lambda>q. type_q q = typing) (snd (getLevelData (\<lambda>k. 1 / 3) 0 1))) = 4"
proof -
  have ok: "rng_ok (\<lambda>k. 1 / 3)"
    by (simp add: rng_ok_def)
  have e: "map correctAnswer (fst (typing_stage (\<lambda>k. 1 / 3) 0 1))
           = [Str ''C'', Str ''A'', Str ''D'', Str ''B'']"
    by code_simp
  from typing_questions_per_letter[OF ok, of 1 0] ok e show ?thesis
    by simp
qed

text \<open>
  C6. For every generated level, word-spelling questions are present only from level 2 on:
  none below level 2, one at level 2, two from level 3 on (the candidates are never
  exhausted), and every letter of each target word is one of the cumulative letters of the
  level.
\<close>

theorem word_spelling_questions:
  assumes "rng_ok rnd"
  shows "length (filter (\<lambda>q. type_q q = word_spelling) (snd (getLevelData rnd c level)))
         = (if 3 \<le> level then 2 else if 2 \<le> level then 1 else 0)
       \<and> (\<forall>q \<in> set (snd (getLevelData rnd c level)).
            type_q q = word_spelling \<longrightarrow>
            (\<exists>w. word q = Some w \<and> correctAnswer q = Str w
                \<and> (\<forall>ch \<in> set w. [ch] \<in> letter ` set (quizLetters_of level))))"
proof -
  let ?fs = "filter (\<lambda>q. type_q q = word_spelling) (snd (getLevelData rnd c level))"
  from filter_spelling_final[OF assms, of c level] obtain ws where
    m: "mset ?fs = mset ws"
    and wl: "length ws = (if 2 \<le> level \<and> 3 \<le> length (quizLetters_of level)
                          then min (if 3 \<le> level then 2 else 1)
                                 (length (wordOptions_of (quizLetters_of level)))
                          else 0)"
    and ws: "\<forall>q \<in> set ws. \<exists>k. \<exists>w \<in> set (wordOptions_of (quizLetters_of level)). q = spelling_question k w"
    by blast
  have "length ?fs = length ws"
    using m by (metis size_mset)
  also have "\<dots> = (if 3 \<le> level then 2 else if 2 \<le> level then 1 else 0)"
  proof (cases "2 \<le> level")
    case True
    from two_word_options[OF True] first_eight_letters(2)[OF True] wl True
    show ?thesis by auto
  next
    case False
    then show ?thesis using wl by simp
  qed
  finally have 1: "length ?fs = (if 3 \<le> level then 2 else if 2 \<le> level then 1 else 0)" .
  have 2: "\<exists>w. word q = Some w \<and> correctAnswer q = Str w
                \<and> (\<forall>ch \<in> set w. [ch] \<in> letter ` set (quizLetters_of level))"
    if "q \<in> set (snd (getLevelData rnd c level))" and "type_q q = word_spelling" for q
  proof -
    from that have "q \<in> set ?fs" by simp
    then have "q \<in> set ws" using m by (metis set_mset_mset)
    with ws obtain k w where w: "w \<in> set (wordOptions_of (quizLetters_of level))"
      and q: "q = spelling_question k w"
      by blast
    from spelling_question_letters[OF w] show ?thesis
      unfolding q by blast
  qed
  from 1 2 show ?thesis by blast
qed

theorem word_spelling_questions_witness:
  "rng_ok (\<lambda>k. 1 / 3)
   \<and> map word (filter (\<lambda>q. type_q q = word_spelling) (snd (getLevelData (\<lambda>k. 1 / 3) 0 3)))
     = [Some ''DAB'', Some ''CAD'']
   \<and> length (filter (\<lambda>q. type_q q = word_spelling) (snd (getLevelData (\<lambda>k. 1 / 3) 0 3))) = 2"
proof -
  have ok: "rng_ok (\<lambda>k. 1 / 3)"
    by (simp add: rng_ok_def)
  have e: "map word (filter (\<lambda>q. type_q q = word_spelling) (snd (getLevelData (\<lambda>k. 1 / 3) 0 3)))
           = [Some ''DAB'', Some ''CAD'']"
    by code_simp
  from word_spelling_questions[OF ok, of 0 3] ok e show ?thesis
    by simp
qed

text \<open>
  C1, amended. On the lesson and quiz page a submitted quiz requests progression (an
  \<open>update-progress\<close> request is sent, and the level is flagged complete) if and only if its
  percentage is exactly 100 and a user id is stored.
\<close>

theorem progression_condition:
  "(filter is_UpdateProgress
      (snd (snd (handleSubmitQuiz tierType levelNumber questions saved progressed s ls))) \<noteq> [])
   = (round_percent (calculateScore questions s) (length questions) = Number 100
      \<and> truthy (ls ''user_id''))
   \<and> levelComplete (fst (handleSubmitQuiz tierType levelNumber questions saved progressed s ls))
     = (levelComplete s
        \<or> (round_percent (calculateScore questions s) (length questions) = Number 100
            \<and> truthy (ls ''user_id'')))"
  by (simp add: submit_effects submit_levelComplete)

text \<open>A signed-in user submits a perfect quiz of level 1: progression is requested.\<close>

theorem progression_condition_witness:
  "round_percent (calculateScore sample_quiz (perfect_state sample_quiz)) (length sample_quiz)
   = Number 100
   \<and> truthy (signed_in ''user_id'')
   \<and> filter is_UpdateProgress
       (snd (snd (handleSubmitQuiz beginner 1 sample_quiz (SaveOk (Some 100)) (ProgressData True)
                    (perfect_state sample_quiz) signed_in))) \<noteq> []
   \<and> levelComplete
       (fst (handleSubmitQuiz beginner 1 sample_quiz (SaveOk (Some 100)) (ProgressData True)
               (perfect_state sample_quiz) signed_in))"
proof -
  have p: "round_percent (calculateScore sample_quiz (perfect_state sample_quiz)) (length sample_quiz)
           = Number 100"
    by code_simp
  have u: "truthy (signed_in ''user_id'')"
    by (simp add: signed_in_def)
  from progression_condition[of beginner 1 sample_quiz "SaveOk (Some 100)" "ProgressData True"
      "perfect_state sample_quiz" signed_in]
  show ?thesis
    using p u by simp
qed

text \<open>
  C1 as stated fails on the lesson and quiz page when no user id is stored: the perfect quiz
  of level 5 scores 100, and neither is progression requested nor the level flagged complete.
\<close>

theorem unsigned_submit_counterexample:
  "round_percent (calculateScore level5_quiz (perfect_state level5_quiz)) (length level5_quiz)
   = Number 100
   \<and> filter is_UpdateProgress
       (snd (snd (handleSubmitQuiz beginner 5 level5_quiz SaveNotOk ProgressThrew
                    (perfect_state level5_quiz) Map.empty))) = []
   \<and> \<not> levelComplete
         (fst (handleSubmitQuiz beginner 5 level5_quiz SaveNotOk ProgressThrew
                 (perfect_state level5_quiz) Map.empty))"
  by code_simp

text \<open>
  The camera quiz page is the only quiz of the tiers expert and pro. A signed-in user passes
  the four letters of level 1 there: the score saved is 100, and no progression is requested,
  which the lesson and quiz page does request at that score. This is where the code falls
  short of C1.
\<close>

theorem camera_quiz_perfect_trace:
  "questions_quiz (\<lambda>k. 1 / 3) 0 1 = [''C'', ''A'', ''D'', ''B'']
   \<and> currentQuestionIndex three_passed_state = 3
   \<and> snd (pass_check signed_in (questions_quiz (\<lambda>k. 1 / 3) 0 1) three_passed_state)
     = [AslCheck ''B'', SaveScore ''7'' ''pro'' 1 (Number 100)]
   \<and> showResults_q (fst (pass_check signed_in (questions_quiz (\<lambda>k. 1 / 3) 0 1) three_passed_state))"
  by code_simp

text \<open>
  C3, amended. On a perfect score of a user whose id is stored, progress is requested for
  the next tier (in the order beginner, intermediate, expert, pro, with pro staying at pro)
  at level 1 if the level number is 5, and for the level number plus one within the same
  tier otherwise; local storage records that target when the service reports success and is
  left as it is when it does not. A percentage other than 100 requests nothing and changes
  no progress state.
\<close>

theorem perfect_score_progress:
  "(round_percent (calculateScore questions s) (length questions) = Number 100
      \<and> truthy (ls ''user_id'') \<longrightarrow>
      filter is_UpdateProgress
        (snd (snd (handleSubmitQuiz tierType levelNumber questions saved progressed s ls)))
      = [UpdateProgress (the (ls ''user_id''))
           (if levelNumber = 5 then tier_name (next_tier tierType) else tier_name tierType)
           (if levelNumber = 5 then 1 else levelNumber + 1)]
      \<and> (progressed = ProgressData True \<longrightarrow>
           fst (snd (handleSubmitQuiz tierType levelNumber questions saved progressed s ls))
           = ls(''level_type'' \<mapsto>
                  (if levelNumber = 5 then tier_name (next_tier tierType) else tier_name tierType),
                ''level_number'' \<mapsto> number_toString (if levelNumber = 5 then 1 else levelNumber + 1)))
      \<and> (progressed \<noteq> ProgressData True \<longrightarrow>
           fst (snd (handleSubmitQuiz tierType levelNumber questions saved progressed s ls)) = ls))
   \<and> (round_percent (calculateScore questions s) (length questions) \<noteq> Number 100 \<longrightarrow>
        filter is_UpdateProgress
          (snd (snd (handleSubmitQuiz tierType levelNumber questions saved progressed s ls))) = []
        \<and> fst (snd (handleSubmitQuiz tierType levelNumber questions saved progressed s ls)) = ls
        \<and> levelComplete (fst (handleSubmitQuiz tierType levelNumber questions saved progressed s ls))
          = levelComplete s)"
proof -
  let ?p = "round_percent (calculateScore questions s) (length questions)"
  let ?r = "handleSubmitQuiz tierType levelNumber questions saved progressed s ls"
  let ?tier = "if levelNumber = 5 then tier_name (next_tier tierType) else tier_name tierType"
  let ?level = "if levelNumber = 5 then 1 else levelNumber + 1"
  have sent: "filter is_UpdateProgress (snd (snd ?r))
              = [UpdateProgress (the (ls ''user_id'')) ?tier ?level]"
    if "?p = Number 100" and "truthy (ls ''user_id'')"
    using that by (simp add: submit_effects)
  have stored: "fst (snd ?r)
                = ls(''level_type'' \<mapsto> ?tier, ''level_number'' \<mapsto> number_toString ?level)"
    if "?p = Number 100" and "truthy (ls ''user_id'')" and "progressed = ProgressData True"
    using that by (simp add: submit_storage)
  have kept: "fst (snd ?r) = ls"
    if "?p = Number 100" and "truthy (ls ''user_id'')" and "progressed \<noteq> ProgressData True"
    using that by (simp add: submit_storage after_progress_cases)
  have below: "filter is_UpdateProgress (snd (snd ?r)) = [] \<and> fst (snd ?r) = ls
               \<and> levelComplete (fst ?r) = levelComplete s"
    if "?p \<noteq> Number 100"
    using that by (simp add: submit_effects submit_storage submit_levelComplete)
  from sent stored kept below show ?thesis
    by blast
qed

text \<open>A signed-in user submits a perfect quiz of level 5 of the beginner tier.\<close>

theorem perfect_score_progress_witness:
  "round_percent (calculateScore level5_quiz (perfect_state level5_quiz)) (length level5_quiz)
   = Number 100
   \<and> truthy (signed_in ''user_id'')
   \<and> filter is_UpdateProgress
       (snd (snd (handleSubmitQuiz beginner 5 level5_quiz (SaveOk (Some 100)) (ProgressData True)
                    (perfect_state level5_quiz) signed_in)))
     = [UpdateProgress ''7'' ''intermediate'' 1]
   \<and> fst (snd (handleSubmitQuiz beginner 5 level5_quiz (SaveOk (Some 100)) (ProgressData True)
                  (perfect_state level5_quiz) signed_in)) ''level_type'' = Some ''intermediate''
   \<and> fst (snd (handleSubmitQuiz beginner 5 level5_quiz (SaveOk (Some 100)) (ProgressData True)
                  (perfect_state level5_quiz) signed_in)) ''level_number'' = Some ''1''"
proof -
  have p: "round_percent (calculateScore level5_quiz (perfect_state level5_quiz)) (length level5_quiz)
           = Number 100"
    by code_simp
  have u: "truthy (signed_in ''user_id'')" "the (signed_in ''user_id'') = ''7''"
    by (simp_all add: signed_in_def)
  have n: "number_toString 1 = ''1''"
    by code_simp
  from perfect_score_progress[of level5_quiz "perfect_state level5_quiz" signed_in
      beginner 5 "SaveOk (Some 100)" "ProgressData True"]
  show ?thesis
    using p u n by simp
qed

text \<open>
  C3 as stated fails without a stored user id: a perfect quiz of level 1 requests nothing
  and records nothing.
\<close>

theorem anonymous_perfect_counterexample:
  "round_percent (calculateScore sample_quiz (perfect_state sample_quiz)) (length sample_quiz)
   = Number 100
   \<and> snd (snd (handleSubmitQuiz beginner 1 sample_quiz SaveThrew (ProgressData True)
                  (perfect_state sample_quiz) Map.empty)) = []
   \<and> fst (snd (handleSubmitQuiz beginner 1 sample_quiz SaveThrew (ProgressData True)
                  (perfect_state sample_quiz) Map.empty)) ''level_number'' = None
   \<and> fst (snd (handleSubmitQuiz beginner 1 sample_quiz SaveThrew (ProgressData True)
                  (perfect_state sample_quiz) Map.empty)) ''level_type'' = None"
  by code_simp

text \<open>
  C4, amended. The computed score is the number of questions whose answer matches: for a
  matching question the answer is the sentinel \<open>matched\<close> and every pair currently has its
  sign in its drop zone; for a true-false question the answer equals the correct answer;
  for a typing or word-spelling question it equals it up to case. For a quiz with at least
  one question the percentage is \<open>round (100 * correct / total)\<close>, and it is what a signed-in
  user's submission saves.
\<close>

theorem score_counts_matches:
  "calculateScore questions s
   = length (filter (\<lambda>(idx, q). scored_match s idx q) (enumerate 0 questions))
   \<and> (0 < length questions \<longrightarrow>
        round_percent (calculateScore questions s) (length questions)
        = Number (round (100 * of_nat (calculateScore questions s) / of_nat (length questions) :: rat)))
   \<and> (0 < length questions \<and> truthy (ls ''user_id'') \<longrightarrow>
        SaveScore (the (ls ''user_id'')) (tier_name tierType) levelNumber
          (Number (round (100 * of_nat (calculateScore questions s) / of_nat (length questions) :: rat)))
        \<in> set (snd (snd (handleSubmitQuiz tierType levelNumber questions saved progressed s ls))))"
proof -
  have 1: "calculateScore questions s
   = length (filter (\<lambda>(idx, q). scored_match s idx q) (enumerate 0 questions))"
    by (simp add: calculateScore_def score_loop_count)
  have 2: "round_percent (calculateScore questions s) (length questions)
        = Number (round (100 * of_nat (calculateScore questions s) / of_nat (length questions) :: rat))"
    if "0 < length questions"
    using that by (rule round_percent_round)
  have 3: "SaveScore (the (ls ''user_id'')) (tier_name tierType) levelNumber
          (Number (round (100 * of_nat (calculateScore questions s) / of_nat (length questions) :: rat)))
        \<in> set (snd (snd (handleSubmitQuiz tierType levelNumber questions saved progressed s ls)))"
    if "0 < length questions" and "truthy (ls ''user_id'')"
    using that 2 by (simp add: handleSubmitQuiz_def Let_def)
  from 1 2 3 show ?thesis by blast
qed

text \<open>The perfect quiz of level 1: five of five, saved as 100.\<close>

theorem score_counts_matches_witness:
  "0 < length sample_quiz \<and> truthy ([''user_id'' \<mapsto> ''7''] ''user_id'')
   \<and> calculateScore sample_quiz (perfect_state sample_quiz) = 5
   \<and> length (filter (\<lambda>(idx, q). scored_match (perfect_state sample_quiz) idx q)
               (enumerate 0 sample_quiz)) = 5
   \<and> round_percent (calculateScore sample_quiz (perfect_state sample_quiz)) (length sample_quiz)
     = Number 100
   \<and> SaveScore ''7'' ''beginner'' 1 (Number 100)
     \<in> set (snd (snd (handleSubmitQuiz beginner 1 sample_quiz (SaveOk (Some 100))
                         (ProgressData True) (perfect_state sample_quiz) [''user_id'' \<mapsto> ''7''])))"
proof -
  have l: "length sample_quiz = 5"
    by code_simp
  have c: "calculateScore sample_quiz (perfect_state sample_quiz) = 5"
    by code_simp
  from score_counts_matches[of sample_quiz "perfect_state sample_quiz" "[''user_id'' \<mapsto> ''7'']"
      beginner 1 "SaveOk (Some 100)" "ProgressData True"]
  show ?thesis
    by (simp add: l c)
qed

text \<open>
  C4 as stated fails after a wrong drop on a matched question: the answer still is the
  sentinel, so the comparison of the statement counts five, and the code counts four.
\<close>

theorem score_counterexample:
  "type_q (sample_quiz ! 3) = matching
   \<and> quizAnswers typed_state 3 = Some (Str ''matched'')
   \<and> claimed_score sample_quiz typed_state = 5
   \<and> calculateScore sample_quiz typed_state = 4"
  by code_simp

text \<open>
  C8, amended. A drop on a pair of the current matching question (whose signs are not
  empty) records the dragged icon and re-checks all pairs: the answer becomes the sentinel
  \<open>matched\<close> when every pair has its sign after the drop, and otherwise the answers are left as
  they were, so that a mark once set stays.
\<close>

theorem drop_marks_when_all_correct:
  assumes "currentIndex s < length questions"
    and "type_q (questions ! currentIndex s) = matching"
    and "pairs (questions ! currentIndex s) = Some ps"
    and "\<forall>p \<in> set ps. sign p \<noteq> []"
    and "draggedIcon s = Some icon" and "icon \<noteq> []"
  shows "droppedIcons (handleDrop questions (currentIndex s) l s)
         = (droppedIcons s)(PairSlot (currentIndex s) l \<mapsto> icon)
       \<and> quizAnswers (handleDrop questions (currentIndex s) l s)
         = (if all_pairs_correct (droppedIcons (handleDrop questions (currentIndex s) l s))
                 (currentIndex s) ps
            then (quizAnswers s)(currentIndex s \<mapsto> Str ''matched'')
            else quizAnswers s)"
  using assms by (simp add: handleDrop_def Let_def fold_drop_step)

text \<open>The fourth correct drop on the matching question of level 1 sets the mark.\<close>

theorem drop_marks_when_all_correct_witness:
  "currentIndex (handleDragStart ''/A.png'' three_dropped_state) < length sample_quiz
   \<and> type_q (sample_quiz ! currentIndex (handleDragStart ''/A.png'' three_dropped_state)) = matching
   \<and> pairs (sample_quiz ! currentIndex (handleDragStart ''/A.png'' three_dropped_state))
     = Some [\<lparr>letter_p = ''C'', sign = ''/C.png''\<rparr>, \<lparr>letter_p = ''A'', sign = ''/A.png''\<rparr>,
             \<lparr>letter_p = ''D'', sign = ''/D.png''\<rparr>, \<lparr>letter_p = ''B'', sign = ''/B.png''\<rparr>]
   \<and> draggedIcon (handleDragStart ''/A.png'' three_dropped_state) = Some ''/A.png''
   \<and> quizAnswers three_dropped_state 3 = None
   \<and> quizAnswers (handleDrop sample_quiz 3 ''A'' (handleDragStart ''/A.png'' three_dropped_state)) 3
     = Some (Str ''matched'')"
proof -
  let ?s = "handleDragStart ''/A.png'' three_dropped_state"
  let ?ps = "[\<lparr>letter_p = ''C'', sign = ''/C.png''\<rparr>, \<lparr>letter_p = ''A'', sign = ''/A.png''\<rparr>,
             \<lparr>letter_p = ''D'', sign = ''/D.png''\<rparr>, \<lparr>letter_p = ''B'', sign = ''/B.png''\<rparr>]"
  have i: "currentIndex ?s = 3" by code_simp
  have h1: "currentIndex ?s < length sample_quiz" by code_simp
  have h2: "type_q (sample_quiz ! currentIndex ?s) = matching" by code_simp
  have h3: "pairs (sample_quiz ! currentIndex ?s) = Some ?ps" by code_simp
  have h4: "\<forall>p \<in> set ?ps. sign p \<noteq> []" by simp
  have h5: "draggedIcon ?s = Some ''/A.png''" by code_simp
  have h6: "''/A.png'' \<noteq> []" by simp
  have n: "quizAnswers three_dropped_state 3 = None" by code_simp
  have a: "all_pairs_correct (droppedIcons (handleDrop sample_quiz 3 ''A'' ?s)) 3 ?ps" by code_simp
  from drop_marks_when_all_correct[OF h1 h2 h3 h4 h5 h6, of "''A''"] a
  have "quizAnswers (handleDrop sample_quiz 3 ''A'' ?s) 3 = Some (Str ''matched'')"
    by (simp add: i)
  with h1 h2 h3 h5 n show ?thesis by blast
qed

text \<open>
  C8 as stated fails: after a wrong icon is dropped on the zone of A the question is still
  marked, although not every pair has its sign.
\<close>

theorem stale_mark_counterexample:
  "quizAnswers all_matched_state 3 = Some (Str ''matched'')
   \<and> all_pairs_correct (droppedIcons all_matched_state) 3 (the (pairs (sample_quiz ! 3)))
   \<and> quizAnswers wrong_drop_state 3 = Some (Str ''matched'')
   \<and> droppedIcons wrong_drop_state (PairSlot 3 ''A'') = Some ''/B.png''
   \<and> \<not> all_pairs_correct (droppedIcons wrong_drop_state) 3 (the (pairs (sample_quiz ! 3)))"
  by code_simp

end
